theory Spec2Isabelle
  imports Complex_Main "HOL-Library.Word"
begin

section \<open>The absorbing-layer generator of MeshMaker\<close>

text \<open>
  This theory embeds \<^verbatim>\<open>MeshMaker.addAbsorbingLayer\<close> and
  \<^verbatim>\<open>MeshMaker._addRectangularAbsorbingLayer\<close>
  (\<^verbatim>\<open>src/meshmaker/components/MeshMaker.py\<close>; the methods of the same
  names in \<^verbatim>\<open>components/DRM/DRM.py\<close> are line-for-line copies that reach
  the same objects through \<^verbatim>\<open>self.meshmaker\<close>).

  Conventions of the embedding:
  \<^item> Python \<^verbatim>\<open>int\<close> is \<open>int\<close>; a NumPy \<^verbatim>\<open>uint16\<close>
    array is a list of \<open>16 word\<close>; coordinates (IEEE doubles in the program) are
    idealised as \<open>real\<close>, so \<^verbatim>\<open>1e-6\<close> is exactly \<open>1 / 10 ^ 6\<close>.
  \<^item> A raised exception is \<open>Inl e\<close>. A method that mutates \<^verbatim>\<open>self\<close>
    returns its outcome together with the state it leaves behind, because a Python
    exception does not undo earlier mutations.
  \<^item> The geometry calls into pyvista, NumPy's \<^verbatim>\<open>arange\<close>/\<^verbatim>\<open>meshgrid\<close>
    and pykdtree are not code of the repository. They are fields of a record
    \<open>kernel\<close> that every function of the model takes as its first argument; the
    array bookkeeping the method does itself is modelled.
  \<^item> \<^verbatim>\<open>progress_callback\<close> and the tqdm progress bar only report progress and
    are left out.
\<close>

subsection \<open>Data\<close>

type_synonym point = "real \<times> real \<times> real"

text \<open>pyvista bounds: \<^verbatim>\<open>(xmin, xmax, ymin, ymax, zmin, zmax)\<close>.\<close>

type_synonym bounds = "real \<times> real \<times> real \<times> real \<times> real \<times> real"

datatype reason =
    NoMeshFound
  | LayersLessThanOne
  | NegativePartitions
  | BadGeometry
  | BadPartitionAlgo
  | TypeMissing
  | BadType
  | PartitionsOnPartitionedMesh
  | BadElementType
  | BadMaterial
  | PointsNotMatching
  | BadNdf
  | ZeroSizeArray
  | ArrayLengthMismatch

datatype feature = Metis | Cylindrical | ASDA

text \<open>
  The exceptions of the two methods. \<open>ValueError\<close> and \<open>NotImplementedError\<close> are
  the Python classes of the same names, with the message abbreviated to a \<open>reason\<close> or
  a \<open>feature\<close>. \<open>ZeroSizeArray\<close> is NumPy's \<^verbatim>\<open>ValueError\<close> for
  \<^verbatim>\<open>.max()\<close> of an empty array, \<open>ArrayLengthMismatch\<close> pyvista's for a
  cell-data array whose length is not \<^verbatim>\<open>n_cells\<close>. \<open>OverflowError\<close> is
  what NumPy 2 raises for a Python integer that does not fit the array's type.
\<close>

datatype error =
    ValueError reason
  | NotImplementedError feature
  | IndexError
  | KeyError
  | UnboundLocalError
  | ElementLookupError
  | OverflowError

datatype pyval = PyNone | PyBool bool

text \<open>A cell of the interior (assembled) mesh, with its \<^verbatim>\<open>cell_data\<close> entries.\<close>

record icell =
  cell_points :: "point list"
  MaterialTag :: int
  ElementTag :: int
  Region :: int
  Core :: int
  AbsorbingRegion :: int

record mesh =
  points :: "point list"
  ndf :: "int list"
  cells :: "icell list"
  active_scalars :: "string option"

text \<open>A block produced by \<^verbatim>\<open>StructuredGrid\<close>, or several combined.\<close>

record grid =
  grid_points :: "point list"
  grid_cells :: "point list list"

text \<open>
  A cell of the shell \<^verbatim>\<open>Absorbing\<close>. The four tag arrays are created with
  \<^verbatim>\<open>dtype=uint16\<close>, \<^verbatim>\<open>Core\<close> with \<^verbatim>\<open>dtype=int\<close>.
\<close>

record acell =
  a_points :: "point list"
  a_MaterialTag :: "16 word"
  a_AbsorbingRegion :: "16 word"
  a_ElementTag :: "16 word"
  a_Region :: "16 word"
  a_Core :: int

record absorbing =
  abs_points :: "point list"
  abs_ndf :: "16 word list"
  abs_cells :: "acell list"

subsection \<open>NumPy helpers\<close>

definition eps :: real where
  "eps = 1 / 10 ^ 6"

text \<open>\<^verbatim>\<open>a.min()\<close> and \<^verbatim>\<open>a.max()\<close> of a non-empty array.\<close>

fun amin :: "'a::linorder list \<Rightarrow> 'a" where
  "amin (x # xs) = fold min xs x"
| "amin [] = undefined"

fun amax :: "'a::linorder list \<Rightarrow> 'a" where
  "amax (x # xs) = fold max xs x"
| "amax [] = undefined"

text \<open>
  \<^verbatim>\<open>.bounds\<close> of a point set. VTK reports the uninitialised box
  \<^verbatim>\<open>(1, -1, 1, -1, 1, -1)\<close> for a data set without points.
\<close>

definition bounds_of :: "point list \<Rightarrow> bounds" where
  "bounds_of ps =
     (if ps = [] then (1, -1, 1, -1, 1, -1)
      else (amin (map fst ps), amax (map fst ps),
            amin (map (fst \<circ> snd) ps), amax (map (fst \<circ> snd) ps),
            amin (map (snd \<circ> snd) ps), amax (map (snd \<circ> snd) ps)))"

text \<open>\<^verbatim>\<open>arr[mask] = v\<close> for a boolean mask of the array's length.\<close>

definition masked_assign :: "bool list \<Rightarrow> 'a \<Rightarrow> 'a list \<Rightarrow> 'a list" where
  "masked_assign msk v arr = map2 (\<lambda>m a. if m then v else a) msk arr"

text \<open>
  Storing a Python \<^verbatim>\<open>int\<close> into a \<^verbatim>\<open>uint16\<close> array, as
  \<^verbatim>\<open>arr[mask] = v\<close> and \<^verbatim>\<open>full(n, v, dtype=uint16)\<close> do. The
  repository pins no NumPy version and the two major versions differ here: NumPy 1
  converts a value outside \<open>0..65535\<close> by wrap-around, NumPy 2 raises
  \<^verbatim>\<open>OverflowError\<close> (the value is converted before anything is written, so
  also when the mask selects nothing). \<^verbatim>\<open>astype(uint16)\<close> on an integer array
  wraps in both, which is \<open>word_of_int\<close>.
\<close>

datatype numpy_version = NumPy_1 | NumPy_2

definition store_uint16 :: "numpy_version \<Rightarrow> int \<Rightarrow> error + 16 word" where
  "store_uint16 ver x =
     (if ver = NumPy_2 \<and> (x < 0 \<or> 65535 < x) then Inl OverflowError
      else Inr (word_of_int x))"

text \<open>\<^verbatim>\<open>a & b\<close> on boolean arrays.\<close>

definition mask_and :: "bool list \<Rightarrow> bool list \<Rightarrow> bool list" where
  "mask_and a b = map2 (\<and>) a b"

subsection \<open>RegionClassifier (lines 499--529)\<close>

text \<open>
  \<open>cc\<close> is \<^verbatim>\<open>cellCentersCoords\<close>, the centres of the clipped boundary cells.
  The seventeen masked assignments run in the order of the source, so a later one
  overwrites an earlier one on the cells where both masks hold.
\<close>

definition regionize :: "point list \<Rightarrow> int list" where
  "regionize cc =
     (case bounds_of cc of (xmin, xmax, ymin, ymax, zmin, zmax) \<Rightarrow>
      let left   = map (\<lambda>(x, y, z). \<bar>x - xmin\<bar> < eps) cc;
          right  = map (\<lambda>(x, y, z). \<bar>x - xmax\<bar> < eps) cc;
          front  = map (\<lambda>(x, y, z). \<bar>y - ymin\<bar> < eps) cc;
          back   = map (\<lambda>(x, y, z). \<bar>y - ymax\<bar> < eps) cc;
          bottom = map (\<lambda>(x, y, z). \<bar>z - zmin\<bar> < eps) cc;
          r = replicate (length cc) 0;
          r = masked_assign left 1 r;
          r = masked_assign right 2 r;
          r = masked_assign front 3 r;
          r = masked_assign back 4 r;
          r = masked_assign bottom 5 r;
          r = masked_assign (mask_and left front) 6 r;
          r = masked_assign (mask_and left back) 7 r;
          r = masked_assign (mask_and right front) 8 r;
          r = masked_assign (mask_and right back) 9 r;
          r = masked_assign (mask_and left bottom) 10 r;
          r = masked_assign (mask_and right bottom) 11 r;
          r = masked_assign (mask_and front bottom) 12 r;
          r = masked_assign (mask_and back bottom) 13 r;
          r = masked_assign (mask_and (mask_and left front) bottom) 14 r;
          r = masked_assign (mask_and (mask_and left back) bottom) 15 r;
          r = masked_assign (mask_and (mask_and right front) bottom) 16 r;
          r = masked_assign (mask_and (mask_and right back) bottom) 17 r
      in r)"

text \<open>The face memberships of the cell with centre \<open>c\<close>, as the masks compute them.\<close>

definition is_left :: "point list \<Rightarrow> point \<Rightarrow> bool" where
  "is_left cc c = (case bounds_of cc of (xmin, xmax, ymin, ymax, zmin, zmax) \<Rightarrow>
     \<bar>fst c - xmin\<bar> < eps)"

definition is_right :: "point list \<Rightarrow> point \<Rightarrow> bool" where
  "is_right cc c = (case bounds_of cc of (xmin, xmax, ymin, ymax, zmin, zmax) \<Rightarrow>
     \<bar>fst c - xmax\<bar> < eps)"

definition is_front :: "point list \<Rightarrow> point \<Rightarrow> bool" where
  "is_front cc c = (case bounds_of cc of (xmin, xmax, ymin, ymax, zmin, zmax) \<Rightarrow>
     \<bar>fst (snd c) - ymin\<bar> < eps)"

definition is_back :: "point list \<Rightarrow> point \<Rightarrow> bool" where
  "is_back cc c = (case bounds_of cc of (xmin, xmax, ymin, ymax, zmin, zmax) \<Rightarrow>
     \<bar>fst (snd c) - ymax\<bar> < eps)"

definition is_bottom :: "point list \<Rightarrow> point \<Rightarrow> bool" where
  "is_bottom cc c = (case bounds_of cc of (xmin, xmax, ymin, ymax, zmin, zmax) \<Rightarrow>
     \<bar>snd (snd c) - zmin\<bar> < eps)"

subsection \<open>The managers the method talks to\<close>

text \<open>
  \<^verbatim>\<open>Material\<close> (\<^verbatim>\<open>components/Material/materialBase.py\<close>): only the
  attributes the method reads.
\<close>

record material =
  material_tag :: int
  material_type :: string
  material_name :: string
  user_name :: string

text \<open>The keyword arguments of \<^verbatim>\<open>create_element("PML3D", ndof, mat, ...)\<close>.\<close>

record pml_params =
  gamma :: real
  beta :: real
  eta :: real
  ksi :: real
  PML_Thickness :: real
  pml_m :: int
  pml_R :: real
  meshType :: string
  meshTypeParameters :: "real list"
  alpha0 :: "real option"
  beta0 :: "real option"
  Cp :: "real option"

record element =
  element_tag :: int
  element_type :: string
  element_ndof :: int
  element_material :: material
  element_params :: "pml_params option"

text \<open>
  Modelled from the spec: \<^verbatim>\<open>ElementRegistry\<close>
  (\<^verbatim>\<open>components/Element/elementBase.py\<close>) is not among the sources. The spec
  calls it a registry keyed by integer tag that the core reads by tag and to which it
  adds new entries. New tags are handed out sequentially, as
  \<^verbatim>\<open>Material.__init__\<close> does with \<^verbatim>\<open>_next_tag\<close>. Looking up a tag
  that is not registered fails; which Python exception that is depends on the missing
  class, so it is the separate error \<open>ElementLookupError\<close>.
\<close>

record ElementRegistry =
  elements :: "int \<rightharpoonup> element"
  next_tag :: int

definition get_element :: "ElementRegistry \<Rightarrow> int \<Rightarrow> element option" where
  "get_element reg tag = elements reg tag"

definition create_element ::
  "ElementRegistry \<Rightarrow> string \<Rightarrow> int \<Rightarrow> material \<Rightarrow> pml_params \<Rightarrow> element \<times> ElementRegistry" where
  "create_element reg ty ndof mat params =
     (let ele = \<lparr>element_tag = next_tag reg, element_type = ty, element_ndof = ndof,
                 element_material = mat, element_params = Some params\<rparr>
      in (ele, reg\<lparr>elements := (elements reg)(next_tag reg \<mapsto> ele),
                   next_tag := next_tag reg + 1\<rparr>))"

text \<open>
  Modelled from the spec: \<^verbatim>\<open>DampingManager.create_damping\<close> and
  \<^verbatim>\<open>RegionManager.create_region\<close> (\<^verbatim>\<open>dampingBase.py\<close>,
  \<^verbatim>\<open>regionBase.py\<close>) are not among the sources. Each is a factory that
  registers a new object under the next tag of its manager.
\<close>

record damping_obj =
  damping_tag :: int
  damping_type :: string
  dampingFactor :: real

record region_obj =
  region_tag :: int
  region_type :: string
  region_damping :: damping_obj

record DampingManager =
  dampings :: "damping_obj list"
  damping_next_tag :: int

record RegionManager =
  regions :: "region_obj list"
  region_next_tag :: int

definition create_damping :: "DampingManager \<Rightarrow> string \<Rightarrow> real \<Rightarrow> damping_obj \<times> DampingManager" where
  "create_damping dm ty factor =
     (let d = \<lparr>damping_tag = damping_next_tag dm, damping_type = ty, dampingFactor = factor\<rparr>
      in (d, dm\<lparr>dampings := dampings dm @ [d], damping_next_tag := damping_next_tag dm + 1\<rparr>))"

definition create_region :: "RegionManager \<Rightarrow> string \<Rightarrow> damping_obj \<Rightarrow> region_obj \<times> RegionManager" where
  "create_region rm ty d =
     (let r = \<lparr>region_tag = region_next_tag rm, region_type = ty, region_damping = d\<rparr>
      in (r, rm\<lparr>regions := regions rm @ [r], region_next_tag := region_next_tag rm + 1\<rparr>))"

text \<open>
  Modelled from the spec: \<^verbatim>\<open>self.constraint.mp.create_equal_dof\<close>
  (\<^verbatim>\<open>components/Constraint/constraint.py\<close>) is not among the sources. The spec
  gives an equal-DOF constraint as (masterNode, [slaveNodes], [dofIndices]), owned by
  the constraint collection; \<^verbatim>\<open>export_to_tcl\<close> reads the attributes
  \<^verbatim>\<open>master_node\<close> and \<^verbatim>\<open>slave_nodes\<close> of each.
\<close>

record equal_dof =
  master_node :: int
  slave_nodes :: "int list"
  dofs :: "int list"

definition create_equal_dof :: "equal_dof list \<Rightarrow> int \<Rightarrow> int list \<Rightarrow> int list \<Rightarrow> equal_dof list" where
  "create_equal_dof mp masterNode slaveNodes ds =
     mp @ [\<lparr>master_node = masterNode, slave_nodes = slaveNodes, dofs = ds\<rparr>]"

text \<open>The part of the \<^verbatim>\<open>MeshMaker\<close> singleton the method reads and writes.\<close>

record meshmaker =
  AssembeledMesh :: "mesh option"
  element :: ElementRegistry
  damping :: DampingManager
  region :: RegionManager
  mp :: "equal_dof list"

subsection \<open>The geometry kernel\<close>

text \<open>
  The library calls of the method, in the order it makes them:
  \<^item> \<open>pv_clip_surface mesh bounds\<close>: \<^verbatim>\<open>Cube(bounds=bounds)\<close>, clipped at
    \<^verbatim>\<open>z = bounds[5] - eps\<close>, then
    \<^verbatim>\<open>mesh.copy().clip_surface(cube, invert=False, crinkle=True)\<close>;
  \<^item> \<open>pv_cell_center ps\<close>: the centre \<^verbatim>\<open>cell_centers\<close> gives the cell with
    points \<open>ps\<close>;
  \<^item> \<open>np_arange\<close>, and \<open>pv_StructuredGrid x y z\<close> for
    \<^verbatim>\<open>StructuredGrid(*meshgrid(x, y, z, indexing='ij'))\<close>;
  \<^item> \<open>pv_combine\<close>: \<^verbatim>\<open>MultiBlock.combine(merge_points=True)\<close>;
  \<^item> \<open>pv_find_cells_within_bounds\<close>;
  \<^item> \<open>pv_extract_cells\<close> and \<open>pv_clean\<close>: the point sets after
    \<^verbatim>\<open>extract_cells\<close> and \<^verbatim>\<open>clean\<close> (the cells they keep and the
    cell data those carry are modelled in \<open>build_shell\<close>);
  \<^item> \<open>pv_partition A n\<close>: the \<^verbatim>\<open>vtkGlobalCellIds\<close> of each block of
    \<^verbatim>\<open>A.partition(n, generate_global_id=True, as_composite=True)\<close>;
  \<^item> \<open>pv_merge mesh A flag\<close>: \<^verbatim>\<open>mesh.merge(A, merge_points=flag, tolerance=1e-6)\<close>;
  \<^item> \<open>kd_query ps p\<close>: distances and indices of
    \<^verbatim>\<open>pykdtree(ps).query(p, k=2)\<close> for one query point;
  \<^item> \<open>np_version\<close>: the major version of the NumPy installed.
\<close>

record kernel =
  pv_clip_surface :: "mesh \<Rightarrow> bounds \<Rightarrow> mesh"
  pv_cell_center :: "point list \<Rightarrow> point"
  np_arange :: "real \<Rightarrow> real \<Rightarrow> real \<Rightarrow> real list"
  pv_StructuredGrid :: "real list \<Rightarrow> real list \<Rightarrow> real list \<Rightarrow> grid"
  pv_combine :: "grid list \<Rightarrow> grid"
  pv_find_cells_within_bounds :: "absorbing \<Rightarrow> bounds \<Rightarrow> nat list"
  pv_extract_cells :: "absorbing \<Rightarrow> bool list \<Rightarrow> point list"
  pv_clean :: "absorbing \<Rightarrow> point list"
  pv_partition :: "absorbing \<Rightarrow> int \<Rightarrow> nat list list"
  pv_merge :: "mesh \<Rightarrow> absorbing \<Rightarrow> bool \<Rightarrow> mesh"
  kd_query :: "point list \<Rightarrow> point \<Rightarrow> (real \<times> real) \<times> (nat \<times> nat)"
  np_version :: numpy_version

subsection \<open>LayerExtruder (lines 533--592)\<close>

definition normals :: "point list" where
  "normals =
     [(-1,  0,  0), ( 1,  0,  0), ( 0, -1,  0), ( 0,  1,  0), ( 0,  0, -1),
      (-1, -1,  0), (-1,  1,  0), ( 1, -1,  0), ( 1,  1,  0),
      (-1,  0, -1), ( 1,  0, -1), ( 0, -1, -1), ( 0,  1, -1),
      (-1, -1, -1), (-1,  1, -1), ( 1, -1, -1), ( 1,  1, -1)]"

text \<open>Python list indexing: a negative index counts from the end.\<close>

definition py_index :: "'a list \<Rightarrow> int \<Rightarrow> error + 'a" where
  "py_index xs i =
     (let n = int (length xs); j = (if i < 0 then n + i else i)
      in if 0 \<le> j \<and> j < n then Inr (xs ! nat j) else Inl IndexError)"

text \<open>
  One pass of the loop over the clipped cells: the block extruded from cell \<open>c\<close> with
  region code \<open>absregion\<close>, and the value \<^verbatim>\<open>dx\<close> has after the pass.
  \<^verbatim>\<open>coords.min(axis=0)\<close> of an empty array is NumPy's \<^verbatim>\<open>ValueError\<close>.
\<close>

definition extrude_cell :: "kernel \<Rightarrow> int \<Rightarrow> icell \<Rightarrow> int \<Rightarrow> error + (grid \<times> real)" where
  "extrude_cell K numLayers c absregion =
     (case bounds_of (cell_points c) of (xmin, xmax, ymin, ymax, zmin, zmax) \<Rightarrow>
      let dx = \<bar>xmax - xmin\<bar>; dy = \<bar>ymax - ymin\<bar>; dz = \<bar>zmax - zmin\<bar>
      in case py_index normals (absregion - 1) of
           Inl e \<Rightarrow> Inl e
         | Inr (nx, ny, nz) \<Rightarrow>
             let coords =
                   map (\<lambda>(x, y, z). (x + nx * of_int numLayers * dx,
                                      y + ny * of_int numLayers * dy,
                                      z + nz * of_int numLayers * dz)) (cell_points c)
                   @ cell_points c
             in if coords = [] then Inl (ValueError ZeroSizeArray)
                else case bounds_of coords of (xmin, xmax, ymin, ymax, zmin, zmax) \<Rightarrow>
                  Inr (pv_StructuredGrid K
                         (np_arange K xmin (xmax + 1 / 10 ^ 6) dx)
                         (np_arange K ymin (ymax + 1 / 10 ^ 6) dy)
                         (np_arange K zmin (zmax + 1 / 10 ^ 6) dz), dx))"

text \<open>
  A block of \<^verbatim>\<open>Absorbing\<close> with the entries appended in the same pass to
  \<^verbatim>\<open>material_tags\<close>, \<^verbatim>\<open>absorbing_regions\<close>,
  \<^verbatim>\<open>element_tags\<close> and \<^verbatim>\<open>region_tags\<close>.
\<close>

type_synonym block = "grid \<times> int \<times> int \<times> int \<times> int"

fun extrusion_loop ::
  "kernel \<Rightarrow> int \<Rightarrow> (icell \<times> int) list \<Rightarrow> block list \<Rightarrow> real option
   \<Rightarrow> error + (block list \<times> real option)" where
  "extrusion_loop K numLayers [] blocks dx = Inr (blocks, dx)"
| "extrusion_loop K numLayers ((c, absregion) # rest) blocks dx =
     (case extrude_cell K numLayers c absregion of
        Inl e \<Rightarrow> Inl e
      | Inr (tmpmesh, dx') \<Rightarrow>
          extrusion_loop K numLayers rest
            (blocks @ [(tmpmesh, MaterialTag c, absregion, ElementTag c, Region c)])
            (Some dx'))"

text \<open>The four tags the loop records for a face cell and its region code.\<close>

definition block_tags :: "icell \<times> int \<Rightarrow> int \<times> int \<times> int \<times> int" where
  "block_tags p = (MaterialTag (fst p), snd p, ElementTag (fst p), Region (fst p))"

subsection \<open>ShellAssembler (lines 598--645)\<close>

text \<open>
  The four \<^verbatim>\<open>uint16\<close> arrays filled block by block:
  \<^verbatim>\<open>repeat(material_tags[i], n_cells).astype(uint16)\<close> casts the tag to 16 bits,
  which is \<open>word_of_int\<close>. An entry holds the tags of one shell cell in the order
  MaterialTag, AbsorbingRegion, ElementTag, Region.
\<close>

type_synonym tags = "16 word \<times> 16 word \<times> 16 word \<times> 16 word"

definition broadcast_tags :: "block list \<Rightarrow> tags list" where
  "broadcast_tags blocks =
     concat (map (\<lambda>(g, mt, ar, et, rt).
       replicate (length (grid_cells g))
         (word_of_int mt, word_of_int ar, word_of_int et, word_of_int rt)) blocks)"

definition shell_cell :: "point list \<Rightarrow> tags \<Rightarrow> acell" where
  "shell_cell ps t =
     (case t of (mt, ar, et, rt) \<Rightarrow>
        \<lparr>a_points = ps, a_MaterialTag = mt, a_AbsorbingRegion = ar, a_ElementTag = et,
         a_Region = rt, a_Core = 0\<rparr>)"

text \<open>\<^verbatim>\<open>extract_cells(indicies)\<close> keeps the cells flagged \<^verbatim>\<open>True\<close>, in order.\<close>

definition extract_cells :: "bool list \<Rightarrow> 'a list \<Rightarrow> 'a list" where
  "extract_cells indicies cs = map snd (filter fst (zip indicies cs))"

text \<open>
  Lines 493--645: the clipped boundary cells, their region codes, the extruded blocks,
  the combined shell with its tag arrays, the removal of the cells
  \<^verbatim>\<open>find_cells_within_bounds(cellCenters.bounds)\<close> reports, and the data
  re-attached after \<^verbatim>\<open>clean\<close>. The result is \<^verbatim>\<open>Absorbing\<close>, the
  value of \<^verbatim>\<open>dx\<close> after the extrusion loop (unbound if the loop never ran) and
  \<^verbatim>\<open>cellCentersCoords\<close>. Assigning a cell-data array whose length is not
  \<^verbatim>\<open>n_cells\<close> is pyvista's \<^verbatim>\<open>ValueError\<close>; an index beyond the array
  in \<^verbatim>\<open>indicies[Absorbingidx] = False\<close> is an \<^verbatim>\<open>IndexError\<close>.
\<close>

definition build_shell ::
  "kernel \<Rightarrow> mesh \<Rightarrow> bounds \<Rightarrow> int \<Rightarrow> int \<Rightarrow> error + (absorbing \<times> real option \<times> point list)" where
  "build_shell K mesh bnds numLayers ndof =
     (let clipped = pv_clip_surface K mesh bnds;
          cellCentersCoords = map (\<lambda>c. pv_cell_center K (cell_points c)) (cells clipped);
          absRegion = regionize cellCentersCoords
      in case extrusion_loop K numLayers (zip (cells clipped) absRegion) [] None of
           Inl e \<Rightarrow> Inl e
         | Inr (blocks, dx) \<Rightarrow>
             let tgs = broadcast_tags blocks;
                 combined = pv_combine K (map fst blocks)
             in if length tgs \<noteq> length (grid_cells combined)
                then Inl (ValueError ArrayLengthMismatch)
                else
                  let Absorbing = \<lparr>abs_points = grid_points combined, abs_ndf = [],
                                    abs_cells = map2 shell_cell (grid_cells combined) tgs\<rparr>;
                      Absorbingidx =
                        pv_find_cells_within_bounds K Absorbing (bounds_of cellCentersCoords)
                  in if \<not> list_all (\<lambda>i. i < length (abs_cells Absorbing)) Absorbingidx
                     then Inl IndexError
                     else
                       let indicies = map (\<lambda>i. i \<notin> set Absorbingidx)
                                          [0..<length (abs_cells Absorbing)];
                           extracted = \<lparr>abs_points = pv_extract_cells K Absorbing indicies,
                                        abs_ndf = [],
                                        abs_cells = extract_cells indicies (abs_cells Absorbing)\<rparr>;
                           cleaned = extracted\<lparr>abs_points := pv_clean K extracted\<rparr>
                       in Inr (cleaned\<lparr>abs_ndf := replicate (length (abs_points cleaned))
                                                       (word_of_int ndof),
                                        abs_cells := map (\<lambda>c. c\<lparr>a_Core := 0\<rparr>)
                                                         (abs_cells cleaned)\<rparr>,
                               dx, cellCentersCoords))"

subsection \<open>ElementRetagger (lines 647--693)\<close>

text \<open>\<^verbatim>\<open>numpy.unique\<close>: the distinct values, sorted.\<close>

definition unique :: "'a::linorder list \<Rightarrow> 'a list" where
  "unique xs = sort (remdups xs)"

definition pml_element_params :: "int \<Rightarrow> real \<Rightarrow> bounds \<Rightarrow> pml_params" where
  "pml_element_params numLayers dx b =
     (case b of (xmin, xmax, ymin, ymax, zmin, zmax) \<Rightarrow>
      let RD_width_x = xmax - xmin;
          RD_width_y = ymax - ymin;
          RD_Depth = zmax - zmin;
          RD_center_x = (xmax + xmin) / 2;
          RD_center_y = (ymax + ymin) / 2;
          RD_center_z = zmax
      in \<lparr>gamma = 1 / 2, beta = 1 / 4, eta = 1 / 12, ksi = 1 / 48,
          PML_Thickness = of_int numLayers * dx, pml_m = 2, pml_R = 1 / 10 ^ 8,
          meshType = ''Box'',
          meshTypeParameters = [RD_center_x, RD_center_y, RD_center_z,
                                RD_width_x, RD_width_y, RD_Depth],
          alpha0 = None, beta0 = None, Cp = None\<rparr>)"

text \<open>
  The loop \<^verbatim>\<open>for tag in EleTags\<close> that checks the element behind each tag and
  creates its PML element. \<open>dx\<close> is the variable left over from the extrusion loop.
\<close>

fun create_PML_elements ::
  "ElementRegistry \<Rightarrow> int \<Rightarrow> real option \<Rightarrow> bounds \<Rightarrow> int \<Rightarrow> 16 word list
   \<Rightarrow> (16 word \<rightharpoonup> int) \<Rightarrow> (error + (16 word \<rightharpoonup> int)) \<times> ElementRegistry" where
  "create_PML_elements reg numLayers dx b ndof [] PMLTags = (Inr PMLTags, reg)"
| "create_PML_elements reg numLayers dx b ndof (tag # rest) PMLTags =
     (case get_element reg (uint tag) of
        None \<Rightarrow> (Inl ElementLookupError, reg)
      | Some ele \<Rightarrow>
          if element_type ele \<notin> set [''stdBrick'', ''bbarBrick'', ''SSPbrick'']
          then (Inl (ValueError BadElementType), reg)
          else
            let mat = element_material ele
            in if material_name mat \<noteq> ''ElasticIsotropic'' \<or> material_type mat \<noteq> ''nDMaterial''
               then (Inl (ValueError BadMaterial), reg)
               else
                 (case dx of
                    None \<Rightarrow> (Inl UnboundLocalError, reg)
                  | Some dxv \<Rightarrow>
                      (case create_element reg ''PML3D'' ndof mat
                              (pml_element_params numLayers dxv b) of
                         (PMLele, reg') \<Rightarrow>
                           create_PML_elements reg' numLayers dx b ndof rest
                             (PMLTags(tag \<mapsto> element_tag PMLele)))))"

text \<open>
  The loop \<^verbatim>\<open>for i, tag in enumerate(EleTags)\<close> that rewrites the
  \<^verbatim>\<open>ElementTag\<close> array in place, one tag after the other. The Python integer
  \<^verbatim>\<open>PMLTags[tag]\<close> is stored into the \<^verbatim>\<open>uint16\<close> array.
\<close>

fun update_element_tags ::
  "numpy_version \<Rightarrow> (16 word \<rightharpoonup> int) \<Rightarrow> 16 word list \<Rightarrow> 16 word list
   \<Rightarrow> error + 16 word list" where
  "update_element_tags ver PMLTags [] col = Inr col"
| "update_element_tags ver PMLTags (tag # rest) col =
     (case PMLTags tag of
        None \<Rightarrow> Inl KeyError
      | Some t \<Rightarrow>
          (case store_uint16 ver t of
             Inl e \<Rightarrow> Inl e
           | Inr w \<Rightarrow>
               update_element_tags ver PMLTags rest
                 (masked_assign (map (\<lambda>v. v = tag) col) w col)))"

definition retag_PML ::
  "kernel \<Rightarrow> ElementRegistry \<Rightarrow> absorbing \<Rightarrow> bounds \<Rightarrow> int \<Rightarrow> real option \<Rightarrow> int
   \<Rightarrow> (error + absorbing) \<times> ElementRegistry" where
  "retag_PML K reg A mesh_bounds numLayers dx ndof =
     (let EleTags = unique (map a_ElementTag (abs_cells A))
      in case create_PML_elements reg numLayers dx mesh_bounds ndof EleTags Map.empty of
           (Inl e, reg') \<Rightarrow> (Inl e, reg')
         | (Inr PMLTags, reg') \<Rightarrow>
             (case update_element_tags (np_version K) PMLTags EleTags
                     (map a_ElementTag (abs_cells A)) of
                Inl e \<Rightarrow> (Inl e, reg')
              | Inr col \<Rightarrow>
                  (Inr (A\<lparr>abs_cells := map2 (\<lambda>c t. c\<lparr>a_ElementTag := t\<rparr>) (abs_cells A) col\<rparr>),
                   reg')))"

subsection \<open>ShellPartitioner (lines 696--708)\<close>

text \<open>
  \<^verbatim>\<open>Core[ids] = i + num_partitions + 1\<close> for the blocks of the partition in
  turn; \<open>i\<close> is the counter of \<^verbatim>\<open>enumerate\<close>.
\<close>

fun assign_cores :: "int \<Rightarrow> nat \<Rightarrow> nat list list \<Rightarrow> int list \<Rightarrow> error + int list" where
  "assign_cores num_partitions i [] core = Inr core"
| "assign_cores num_partitions i (ids # rest) core =
     (if \<not> list_all (\<lambda>j. j < length core) ids then Inl IndexError
      else assign_cores num_partitions (Suc i) rest
             (fold (\<lambda>j c. c[j := int i + num_partitions + 1]) ids core))"

definition partition_shell :: "kernel \<Rightarrow> absorbing \<Rightarrow> int \<Rightarrow> int \<Rightarrow> error + absorbing" where
  "partition_shell K A numPartitions num_partitions =
     (if numPartitions > 1 then
        (case assign_cores num_partitions 0 (pv_partition K A numPartitions)
                (map a_Core (abs_cells A)) of
           Inl e \<Rightarrow> Inl e
         | Inr core \<Rightarrow>
             Inr (A\<lparr>abs_cells := map2 (\<lambda>c v. c\<lparr>a_Core := v\<rparr>) (abs_cells A) core\<rparr>))
      else if numPartitions = 1 then
        Inr (A\<lparr>abs_cells := map (\<lambda>c. c\<lparr>a_Core := num_partitions + 1\<rparr>) (abs_cells A)\<rparr>)
      else Inr A)"

subsection \<open>Damping region of the shell (lines 710--720)\<close>

text \<open>
  The damping and the region are created first; then
  \<^verbatim>\<open>full(Absorbing.n_cells, region.tag, dtype=uint16)\<close> stores the new region's
  tag, a Python integer, into a 16-bit array.
\<close>

definition add_damping_region ::
  "kernel \<Rightarrow> meshmaker \<Rightarrow> absorbing \<Rightarrow> real \<Rightarrow> (error + absorbing) \<times> meshmaker" where
  "add_damping_region K s A rayleighDamping =
     (case create_damping (damping s) ''frequency rayleigh'' rayleighDamping of
        (d, dm) \<Rightarrow>
          (case create_region (region s) ''elementRegion'' d of
             (r, rm) \<Rightarrow>
               (case store_uint16 (np_version K) (region_tag r) of
                  Inl e \<Rightarrow> (Inl e, s\<lparr>damping := dm, region := rm\<rparr>)
                | Inr w \<Rightarrow>
                    (Inr (A\<lparr>abs_cells := map (\<lambda>c. c\<lparr>a_Region := w\<rparr>) (abs_cells A)\<rparr>),
                     s\<lparr>damping := dm, region := rm\<rparr>))))"

subsection \<open>InterfaceStitcher (lines 747--795)\<close>

text \<open>
  The points of the interior mesh that are not strictly inside the shrunk box, in the
  order of \<^verbatim>\<open>mesh.points\<close>.
\<close>

definition interface_points :: "mesh \<Rightarrow> point list" where
  "interface_points mesh =
     (case bounds_of (points mesh) of (xmin, xmax, ymin, ymax, zmin, zmax) \<Rightarrow>
      let xmin = xmin + eps;
          xmax = xmax - eps;
          ymin = ymin + eps;
          ymax = ymax - eps;
          zmin = zmin + eps;
          zmax = zmax + 10
      in filter (\<lambda>(x, y, z). \<not> (x > xmin \<and> x < xmax \<and> y > ymin \<and> y < ymax \<and>
                                  z > zmin \<and> z < zmax)) (points mesh))"

text \<open>
  The body of the loop \<^verbatim>\<open>for i, index in enumerate(indices)\<close> up to the choice
  of \<^verbatim>\<open>(masterNode, slaveNode)\<close>; \<open>nd\<close> is
  \<^verbatim>\<open>AssembeledMesh.point_data["ndf"]\<close>.
\<close>

definition select_nodes :: "int list \<Rightarrow> nat \<times> nat \<Rightarrow> error + (int \<times> int)" where
  "select_nodes nd index =
     (case index of (i0, i1) \<Rightarrow>
        if \<not> (i0 < length nd \<and> i1 < length nd) then Inl IndexError
        else
          let ndf1 = nd ! i0; ndf2 = nd ! i1
          in if ndf1 = 9 \<and> ndf2 = 3 then Inr (int i1 + 1, int i0 + 1)
             else if ndf1 = 3 \<and> ndf2 = 9 then Inr (int i0 + 1, int i1 + 1)
             else Inl (ValueError BadNdf))"

text \<open>The constraint \<^verbatim>\<open>create_equal_dof(masterNode, [slaveNode], [1,2,3])\<close> registers.\<close>

definition constraint_of :: "int \<times> int \<Rightarrow> equal_dof" where
  "constraint_of n = \<lparr>master_node = fst n, slave_nodes = [snd n], dofs = [1, 2, 3]\<rparr>"

fun equal_dof_loop ::
  "int list \<Rightarrow> (nat \<times> nat) list \<Rightarrow> equal_dof list \<Rightarrow> (error + unit) \<times> equal_dof list" where
  "equal_dof_loop nd [] cs = (Inr (), cs)"
| "equal_dof_loop nd (index # rest) cs =
     (case select_nodes nd index of
        Inl e \<Rightarrow> (Inl e, cs)
      | Inr (masterNode, slaveNode) \<Rightarrow>
          equal_dof_loop nd rest (create_equal_dof cs masterNode [slaveNode] [1, 2, 3]))"

text \<open>The flattened array \<^verbatim>\<open>abs(distances)\<close> of the query.\<close>

definition query_distances :: "kernel \<Rightarrow> mesh \<Rightarrow> mesh \<Rightarrow> real list" where
  "query_distances K merged mesh =
     concat (map (\<lambda>p. case kd_query K (points merged) p of
                         ((d0, d1), ix) \<Rightarrow> [\<bar>d0\<bar>, \<bar>d1\<bar>]) (interface_points mesh))"

definition query_indices :: "kernel \<Rightarrow> mesh \<Rightarrow> mesh \<Rightarrow> (nat \<times> nat) list" where
  "query_indices K merged mesh =
     map (\<lambda>p. snd (kd_query K (points merged) p)) (interface_points mesh)"

definition stitch ::
  "kernel \<Rightarrow> mesh \<Rightarrow> mesh \<Rightarrow> equal_dof list \<Rightarrow> (error + unit) \<times> equal_dof list" where
  "stitch K merged mesh cs =
     (let distances = query_distances K merged mesh;
          indices = query_indices K merged mesh
      in if distances = [] then (Inl (ValueError ZeroSizeArray), cs)
         else if amax distances > 1 / 10 ^ 6 then (Inl (ValueError PointsNotMatching), cs)
         else equal_dof_loop (ndf merged) indices cs)"

subsection \<open>The two methods\<close>

text \<open>
  Line 485: \<^verbatim>\<open>tuple(array(bounds) + array([eps, -eps, eps, -eps, eps, +10]))\<close>.
\<close>

definition shrink_bounds :: "bounds \<Rightarrow> bounds" where
  "shrink_bounds b =
     (case b of (x0, x1, y0, y1, z0, z1) \<Rightarrow>
        (x0 + eps, x1 - eps, y0 + eps, y1 - eps, z0 + eps, z1 + 10))"

text \<open>
  Lines 493--723 of \<^verbatim>\<open>_addRectangularAbsorbingLayer\<close>: the shell with its final
  tags and partition ids. The registries of the state are updated as the elements, the
  damping and the region are created. The \<^verbatim>\<open>KDTree\<close> query at lines 729--732
  only computes values that are never read and is left out.
\<close>

definition make_absorbing ::
  "kernel \<Rightarrow> meshmaker \<Rightarrow> mesh \<Rightarrow> int \<Rightarrow> int \<Rightarrow> real \<Rightarrow> bool \<Rightarrow> string
   \<Rightarrow> (error + absorbing) \<times> meshmaker" where
  "make_absorbing K s mesh numLayers numPartitions rayleighDamping matchDamping ty =
     (let ndof = (if ty = ''PML'' then 9 else 3);
          num_partitions = amax (map Core (cells mesh));
          bnds = shrink_bounds (bounds_of (points mesh))
      in case build_shell K mesh bnds numLayers ndof of
           Inl e \<Rightarrow> (Inl e, s)
         | Inr (A, dx, cc) \<Rightarrow>
             (case (if ty = ''PML''
                    then retag_PML K (element s) A (bounds_of (points mesh)) numLayers dx ndof
                    else (Inr A, element s)) of
                (Inl e, reg) \<Rightarrow> (Inl e, s\<lparr>element := reg\<rparr>)
              | (Inr A1, reg) \<Rightarrow>
                  (case partition_shell K A1 numPartitions num_partitions of
                     Inl e \<Rightarrow> (Inl e, s\<lparr>element := reg\<rparr>)
                   | Inr A2 \<Rightarrow>
                       (case (if (ty = ''Rayleigh'' \<or> ty = ''PML'') \<and> \<not> matchDamping
                              then add_damping_region K (s\<lparr>element := reg\<rparr>) A2
                                     rayleighDamping
                              else (Inr A2, s\<lparr>element := reg\<rparr>)) of
                          (Inl e, s') \<Rightarrow> (Inl e, s')
                        | (Inr A3, s') \<Rightarrow>
                            if ty = ''ASDA'' then (Inl (NotImplementedError ASDA), s')
                            else (Inr A3, s')))))"

text \<open>
  Lines 725--795: the interior mesh gets \<^verbatim>\<open>AbsorbingRegion = 0\<close>, the merged
  mesh replaces \<^verbatim>\<open>AssembeledMesh\<close>, and for a PML layer the interface is
  stitched. The method ends without a \<^verbatim>\<open>return\<close> statement.
\<close>

definition zero_AbsorbingRegion :: "mesh \<Rightarrow> mesh" where
  "zero_AbsorbingRegion mesh =
     mesh\<lparr>cells := map (\<lambda>c. c\<lparr>AbsorbingRegion := 0\<rparr>) (cells mesh)\<rparr>"

definition merge_and_stitch ::
  "kernel \<Rightarrow> meshmaker \<Rightarrow> mesh \<Rightarrow> absorbing \<Rightarrow> string \<Rightarrow> (error + pyval) \<times> meshmaker" where
  "merge_and_stitch K s mesh A ty =
     (let mesh' = zero_AbsorbingRegion mesh;
          mergeFlag = (ty \<noteq> ''PML'');
          merged = (pv_merge K mesh' A mergeFlag)\<lparr>active_scalars := Some ''AbsorbingRegion''\<rparr>;
          s1 = s\<lparr>AssembeledMesh := Some merged\<rparr>
      in if ty = ''PML'' then
           (case stitch K merged mesh' (mp s1) of
              (Inl e, cs) \<Rightarrow> (Inl e, s1\<lparr>mp := cs\<rparr>)
            | (Inr u, cs) \<Rightarrow> (Inr PyNone, s1\<lparr>mp := cs\<rparr>))
         else (Inr PyNone, s1))"

text \<open>
  \<^verbatim>\<open>_addRectangularAbsorbingLayer\<close>. \<open>kw\<close> is \<^verbatim>\<open>kwargs.get('type')\<close>:
  \<open>None\<close> when the keyword is absent. \<^verbatim>\<open>mesh.cell_data["Core"].max()\<close> of a
  mesh without cells is NumPy's \<^verbatim>\<open>ValueError\<close>.
\<close>

definition addRectangularAbsorbingLayer ::
  "kernel \<Rightarrow> meshmaker \<Rightarrow> int \<Rightarrow> int \<Rightarrow> string \<Rightarrow> real \<Rightarrow> bool \<Rightarrow> string option
   \<Rightarrow> (error + pyval) \<times> meshmaker" where
  "addRectangularAbsorbingLayer K s numLayers numPartitions partitionAlgo rayleighDamping
       matchDamping kw =
     (case AssembeledMesh s of
        None \<Rightarrow> (Inl (ValueError NoMeshFound), s)
      | Some mesh \<Rightarrow>
          if numLayers < 1 then (Inl (ValueError LayersLessThanOne), s)
          else if numPartitions < 0 then (Inl (ValueError NegativePartitions), s)
          else if partitionAlgo \<notin> set [''kd-tree'', ''metis'']
            then (Inl (ValueError BadPartitionAlgo), s)
          else if partitionAlgo = ''metis'' then (Inl (NotImplementedError Metis), s)
          else
            (case kw of
               None \<Rightarrow> (Inl (ValueError TypeMissing), s)
             | Some ty \<Rightarrow>
                 if ty \<notin> set [''PML'', ''Rayleigh'', ''ASDA''] then (Inl (ValueError BadType), s)
                 else if ty = ''ASDA'' then (Inl (NotImplementedError ASDA), s)
                 else if cells mesh = [] then (Inl (ValueError ZeroSizeArray), s)
                 else if numPartitions = 0 \<and> amax (map Core (cells mesh)) > 0
                   then (Inl (ValueError PartitionsOnPartitionedMesh), s)
                 else
                   (case make_absorbing K s mesh numLayers numPartitions rayleighDamping
                           matchDamping ty of
                      (Inl e, s1) \<Rightarrow> (Inl e, s1)
                    | (Inr A, s1) \<Rightarrow> merge_and_stitch K s1 mesh A ty)))"

text \<open>\<^verbatim>\<open>addAbsorbingLayer\<close> (lines 392--415).\<close>

definition addAbsorbingLayer ::
  "kernel \<Rightarrow> meshmaker \<Rightarrow> int \<Rightarrow> int \<Rightarrow> string \<Rightarrow> string \<Rightarrow> real \<Rightarrow> bool \<Rightarrow> string option
   \<Rightarrow> (error + pyval) \<times> meshmaker" where
  "addAbsorbingLayer K s numLayers numPartitions partitionAlgo geometry rayleighDamping
       matchDamping kw =
     (if AssembeledMesh s = None then (Inl (ValueError NoMeshFound), s)
      else if numLayers < 1 then (Inl (ValueError LayersLessThanOne), s)
      else if numPartitions < 0 then (Inl (ValueError NegativePartitions), s)
      else if geometry \<notin> set [''Rectangular'', ''Cylindrical'']
        then (Inl (ValueError BadGeometry), s)
      else if partitionAlgo \<notin> set [''kd-tree'', ''metis'']
        then (Inl (ValueError BadPartitionAlgo), s)
      else if partitionAlgo = ''metis'' then (Inl (NotImplementedError Metis), s)
      else if geometry = ''Rectangular'' then
        addRectangularAbsorbingLayer K s numLayers numPartitions partitionAlgo
          rayleighDamping matchDamping kw
      else if geometry = ''Cylindrical'' then (Inl (NotImplementedError Cylindrical), s)
      else (Inr PyNone, s))"

subsection \<open>The interface points as the specification describes them\<close>

text \<open>
  Not taken from the code: the specification calls a point of the interior mesh
  eligible for stitching when it is not strictly inside the bounding box of the mesh
  shrunk by \<open>eps\<close> in x, in y and at the lower end of z, and enlarged by 10 at the
  upper end of z. The bounding box is written with the least and the greatest
  coordinate. \<open>spec_boundary_points\<close> is compared with \<open>interface_points\<close>
  below.
\<close>

definition spec_shrunk_box :: "point list \<Rightarrow> bounds" where
  "spec_shrunk_box ps =
     (Min (fst ` set ps) + eps, Max (fst ` set ps) - eps,
      Min ((fst \<circ> snd) ` set ps) + eps, Max ((fst \<circ> snd) ` set ps) - eps,
      Min ((snd \<circ> snd) ` set ps) + eps, Max ((snd \<circ> snd) ` set ps) + 10)"

definition strictly_inside :: "bounds \<Rightarrow> point \<Rightarrow> bool" where
  "strictly_inside b p =
     (case b of (x0, x1, y0, y1, z0, z1) \<Rightarrow> case p of (x, y, z) \<Rightarrow>
        x0 < x \<and> x < x1 \<and> y0 < y \<and> y < y1 \<and> z0 < z \<and> z < z1)"

definition spec_boundary_points :: "mesh \<Rightarrow> point list" where
  "spec_boundary_points mesh =
     filter (\<lambda>p. \<not> strictly_inside (spec_shrunk_box (points mesh)) p) (points mesh)"

subsection \<open>A one-cell example\<close>

text \<open>
  A unit cube meshed by one brick element, and a test double for the library calls:
  the clip keeps every cell, a cell's centre is the mean of its points, a block is the
  single cell spanned by the first two grid coordinates along each axis, combine
  concatenates the blocks, no cell is reported within the bounds, merge appends the
  shell to the interior mesh, and the nearest-neighbour query returns the first two
  points that coincide with the query point.
\<close>

definition cube_points :: "point list" where
  "cube_points = [(0, 0, 0), (1, 0, 0), (1, 1, 0), (0, 1, 0),
                  (0, 0, 1), (1, 0, 1), (1, 1, 1), (0, 1, 1)]"

definition cube_mesh :: mesh where
  "cube_mesh =
     \<lparr>points = cube_points, ndf = [3, 3, 3, 3, 3, 3, 3, 3],
      cells = [\<lparr>cell_points = cube_points, MaterialTag = 1, ElementTag = 1, Region = 1,
                Core = 0, AbsorbingRegion = 0\<rparr>],
      active_scalars = None\<rparr>"

definition centroid :: "point list \<Rightarrow> point" where
  "centroid ps =
     (sum_list (map fst ps) / of_nat (length ps),
      sum_list (map (fst \<circ> snd) ps) / of_nat (length ps),
      sum_list (map (snd \<circ> snd) ps) / of_nat (length ps))"

fun positions :: "'a list \<Rightarrow> 'a \<Rightarrow> nat \<Rightarrow> nat list" where
  "positions [] p n = []"
| "positions (q # qs) p n =
     (if q = p then n # positions qs p (n + 1) else positions qs p (n + 1))"

definition exact_query :: "point list \<Rightarrow> point \<Rightarrow> (real \<times> real) \<times> (nat \<times> nat)" where
  "exact_query ps p =
     (case positions ps p 0 of
        i0 # i1 # rest \<Rightarrow> ((0, 0), (i0, i1))
      | [i0] \<Rightarrow> ((0, 1), (i0, i0))
      | [] \<Rightarrow> ((1, 1), (0, 0)))"

definition as_icell :: "acell \<Rightarrow> icell" where
  "as_icell c =
     \<lparr>cell_points = a_points c, MaterialTag = uint (a_MaterialTag c),
      ElementTag = uint (a_ElementTag c), Region = uint (a_Region c), Core = a_Core c,
      AbsorbingRegion = uint (a_AbsorbingRegion c)\<rparr>"

definition test_kernel :: kernel where
  "test_kernel =
     \<lparr>pv_clip_surface = (\<lambda>m b. m),
      pv_cell_center = centroid,
      np_arange = (\<lambda>start stop step. [start, start + step]),
      pv_StructuredGrid = (\<lambda>x y z.
         \<lparr>grid_points = concat (map (\<lambda>a. concat (map (\<lambda>b. map (\<lambda>c. (a, b, c)) z) y)) x),
          grid_cells = [concat (map (\<lambda>a. concat (map (\<lambda>b. map (\<lambda>c. (a, b, c)) z) y)) x)]\<rparr>),
      pv_combine = (\<lambda>gs. \<lparr>grid_points = concat (map grid_points gs),
                          grid_cells = concat (map grid_cells gs)\<rparr>),
      pv_find_cells_within_bounds = (\<lambda>A b. []),
      pv_extract_cells = (\<lambda>A ind. abs_points A),
      pv_clean = abs_points,
      pv_partition = (\<lambda>A n. [map fst (zip [0..<length (abs_cells A)] (abs_cells A))]),
      pv_merge = (\<lambda>m A flag.
         \<lparr>points = points m @ abs_points A, ndf = ndf m @ map uint (abs_ndf A),
          cells = cells m @ map as_icell (abs_cells A), active_scalars = active_scalars m\<rparr>),
      kd_query = exact_query,
      np_version = NumPy_2\<rparr>"

definition elastic :: material where
  "elastic = \<lparr>material_tag = 1, material_type = ''nDMaterial'',
              material_name = ''ElasticIsotropic'', user_name = ''soil''\<rparr>"

definition brick :: element where
  "brick = \<lparr>element_tag = 1, element_type = ''stdBrick'', element_ndof = 3,
            element_material = elastic, element_params = None\<rparr>"

definition cube_model :: meshmaker where
  "cube_model =
     \<lparr>AssembeledMesh = Some cube_mesh,
      element = \<lparr>elements = [1 \<mapsto> brick], next_tag = 2\<rparr>,
      damping = \<lparr>dampings = [], damping_next_tag = 1\<rparr>,
      region = \<lparr>regions = [], region_next_tag = 1\<rparr>,
      mp = []\<rparr>"

text \<open>The same model after a partitioning that put the cell on core 2.\<close>

definition partitioned_model :: meshmaker where
  "partitioned_model =
     cube_model\<lparr>AssembeledMesh :=
       Some (cube_mesh\<lparr>cells := map (\<lambda>c. c\<lparr>Core := 2\<rparr>) (cells cube_mesh)\<rparr>)\<rparr>"

text \<open>
  The same test double, except that the cleaned shell has exactly the eight corner
  nodes of the cube as its points, so that every interface point has a coincident
  shell node.
\<close>

definition matching_kernel :: kernel where
  "matching_kernel = test_kernel\<lparr>pv_clean := (\<lambda>A. cube_points)\<rparr>"

text \<open>The shell this kernel yields for the cube with one layer, one partition and type PML.\<close>

definition cube_shell :: absorbing where
  "cube_shell =
     \<lparr>abs_points = cube_points, abs_ndf = [9, 9, 9, 9, 9, 9, 9, 9],
      abs_cells = [\<lparr>a_points = [(0, 0, -1), (0, 0, 0), (0, 1, -1), (0, 1, 0),
                               (1, 0, -1), (1, 0, 0), (1, 1, -1), (1, 1, 0)],
                    a_MaterialTag = 1, a_AbsorbingRegion = 17, a_ElementTag = 2,
                    a_Region = 1, a_Core = 1\<rparr>]\<rparr>"

text \<open>A mesh of a single point, for which the query finds no second coincident point.\<close>

definition point_mesh :: mesh where
  "point_mesh = \<lparr>points = [(0, 0, 0)], ndf = [3], cells = [], active_scalars = None\<rparr>"

text \<open>A shell of two cells that carry the same element tag, and a registry whose element 1 is no brick.\<close>

definition two_cell_shell :: absorbing where
  "two_cell_shell =
     \<lparr>abs_points = [], abs_ndf = [],
      abs_cells = [shell_cell [] (1, 1, 1, 1), shell_cell [] (1, 2, 1, 1)]\<rparr>"

definition shell_registry :: ElementRegistry where
  "shell_registry = \<lparr>elements = [1 \<mapsto> brick\<lparr>element_type := ''ShellMITC4''\<rparr>], next_tag = 2\<rparr>"

text \<open>
  The cube with a material tag, a registry with a next element tag and a model with a
  next region tag that do not fit in 16 bits.
\<close>

definition wide_tag_mesh :: mesh where
  "wide_tag_mesh = cube_mesh\<lparr>cells := map (\<lambda>c. c\<lparr>MaterialTag := 70000\<rparr>) (cells cube_mesh)\<rparr>"

definition wide_registry :: ElementRegistry where
  "wide_registry = \<lparr>elements = [1 \<mapsto> brick], next_tag = 65537\<rparr>"

definition wide_region_model :: meshmaker where
  "wide_region_model = cube_model\<lparr>region := \<lparr>regions = [], region_next_tag = 70000\<rparr>\<rparr>"

subsection \<open>A lattice example\<close>

text \<open>
  A second test double, which computes every library call on axis-parallel lattices:
  \<^verbatim>\<open>arange\<close> has \<open>\<lceil>(stop - start) / step\<rceil>\<close> entries, a structured grid has one
  cell per pair of consecutive coordinates along each axis, the clip keeps the cells
  with a point outside the clipping box, combine and clean merge coincident points,
  the NumPy version is a parameter,
  the cells found within bounds are those whose bounding box meets the box, and
  extraction keeps the points of the cells kept. The mesh has two by two by one cells
  of size \<open>2 \<times> 1 \<times> 1\<close>; its point \<open>(2, 1, 1)\<close>, in the middle of the top
  face, is the only one strictly inside the shrunk box.
\<close>

definition consecutive :: "'a list \<Rightarrow> ('a \<times> 'a) list" where
  "consecutive xs = zip xs (tl xs)"

definition lattice_arange :: "real \<Rightarrow> real \<Rightarrow> real \<Rightarrow> real list" where
  "lattice_arange start stop step =
     map (\<lambda>i. start + of_nat i * step) [0..<nat \<lceil>(stop - start) / step\<rceil>]"

definition lattice_grid :: "real list \<Rightarrow> real list \<Rightarrow> real list \<Rightarrow> grid" where
  "lattice_grid x y z =
     \<lparr>grid_points = [(a, b, c). c \<leftarrow> z, b \<leftarrow> y, a \<leftarrow> x],
      grid_cells =
        [[(x0, y0, z0), (x1, y0, z0), (x1, y1, z0), (x0, y1, z0),
          (x0, y0, z1), (x1, y0, z1), (x1, y1, z1), (x0, y1, z1)].
         (z0, z1) \<leftarrow> consecutive z, (y0, y1) \<leftarrow> consecutive y, (x0, x1) \<leftarrow> consecutive x]\<rparr>"

definition outside :: "bounds \<Rightarrow> point \<Rightarrow> bool" where
  "outside b p =
     (case b of (x0, x1, y0, y1, z0, z1) \<Rightarrow> case p of (x, y, z) \<Rightarrow>
        \<not> (x0 < x \<and> x < x1 \<and> y0 < y \<and> y < y1 \<and> z0 < z \<and> z < z1))"

definition boxes_meet :: "bounds \<Rightarrow> bounds \<Rightarrow> bool" where
  "boxes_meet a b =
     (case a of (x0, x1, y0, y1, z0, z1) \<Rightarrow> case b of (u0, u1, v0, v1, w0, w1) \<Rightarrow>
        x0 \<le> u1 \<and> u0 \<le> x1 \<and> y0 \<le> v1 \<and> v0 \<le> y1 \<and> z0 \<le> w1 \<and> w0 \<le> z1)"

definition lattice_kernel :: "numpy_version \<Rightarrow> kernel" where
  "lattice_kernel ver =
     \<lparr>pv_clip_surface = (\<lambda>m b. m\<lparr>cells := filter (\<lambda>c. list_ex (outside b) (cell_points c)) (cells m)\<rparr>),
      pv_cell_center = centroid,
      np_arange = lattice_arange,
      pv_StructuredGrid = lattice_grid,
      pv_combine = (\<lambda>gs. \<lparr>grid_points = remdups (concat (map grid_points gs)),
                          grid_cells = concat (map grid_cells gs)\<rparr>),
      pv_find_cells_within_bounds = (\<lambda>A b.
         filter (\<lambda>i. boxes_meet (bounds_of (a_points (abs_cells A ! i))) b)
           [0..<length (abs_cells A)]),
      pv_extract_cells = (\<lambda>A ind. concat (map a_points (extract_cells ind (abs_cells A)))),
      pv_clean = (\<lambda>A. remdups (abs_points A)),
      pv_partition = (\<lambda>A n. [[0..<length (abs_cells A)]]),
      pv_merge = (\<lambda>m A flag.
         \<lparr>points = points m @ abs_points A, ndf = ndf m @ map uint (abs_ndf A),
          cells = cells m @ map as_icell (abs_cells A), active_scalars = active_scalars m\<rparr>),
      kd_query = exact_query,
      np_version = ver\<rparr>"

definition lattice_mesh :: mesh where
  "lattice_mesh =
     \<lparr>points = grid_points (lattice_grid [0, 2, 4] [0, 1, 2] [0, 1]),
      ndf = replicate 18 3,
      cells = map (\<lambda>ps. \<lparr>cell_points = ps, MaterialTag = 1, ElementTag = 1, Region = 1,
                          Core = 0, AbsorbingRegion = 0\<rparr>)
                  (grid_cells (lattice_grid [0, 2, 4] [0, 1, 2] [0, 1])),
      active_scalars = None\<rparr>"

definition lattice_model :: meshmaker where
  "lattice_model = cube_model\<lparr>AssembeledMesh := Some lattice_mesh\<rparr>"

text \<open>The model with a registry whose next element tag does not fit in 16 bits.\<close>

definition wide_lattice_model :: meshmaker where
  "wide_lattice_model = lattice_model\<lparr>element := wide_registry\<rparr>"

text \<open>The points of the shell this kernel builds around the lattice mesh with one layer.\<close>

definition lattice_shell_points :: "point list" where
  "lattice_shell_points =
  [(- 2, - 1, - 1), (0, - 1, - 1), (- 2, 0, - 1), (0, 0, - 1),
   (- 2, - 1, 0), (- 2, - 1, 1), (0, - 1, 0), (0, - 1, 1), (- 2, 0, 0),
   (0, 0, 0), (- 2, 0, 1), (0, 0, 1), (2, - 1, - 1), (4, - 1, - 1),
   (6, - 1, - 1), (2, 0, - 1), (4, 0, - 1), (6, 0, - 1), (2, - 1, 0),
   (2, 0, 0), (2, - 1, 1), (2, 0, 1), (4, - 1, 0), (6, - 1, 0), (4, - 1, 1),
   (6, - 1, 1), (4, 0, 0), (6, 0, 0), (4, 0, 1), (6, 0, 1), (- 2, 1, - 1),
   (0, 1, - 1), (- 2, 2, - 1), (- 2, 3, - 1), (0, 2, - 1), (0, 3, - 1),
   (- 2, 1, 0), (0, 1, 0), (- 2, 1, 1), (0, 1, 1), (- 2, 2, 0), (- 2, 3, 0),
   (- 2, 2, 1), (- 2, 3, 1), (0, 2, 0), (0, 3, 0), (0, 2, 1), (0, 3, 1),
   (2, 1, - 1), (2, 1, 0), (4, 1, - 1), (6, 1, - 1), (2, 2, - 1),
   (2, 3, - 1), (4, 2, - 1), (6, 2, - 1), (6, 3, - 1), (4, 3, - 1),
   (4, 1, 0), (6, 1, 0), (4, 1, 1), (6, 1, 1), (2, 2, 0), (2, 3, 0),
   (2, 2, 1), (2, 3, 1), (4, 2, 0), (6, 2, 0), (6, 3, 0), (4, 3, 0),
   (4, 2, 1), (6, 2, 1), (6, 3, 1), (4, 3, 1)]"

text \<open>The pairs (master node, slave node) the stitching finds for that shell.\<close>

definition lattice_pairs :: "(int \<times> int) list" where
  "lattice_pairs =
     [(1, 28), (2, 38), (3, 45), (4, 56), (5, 68), (6, 77), (7, 63), (8, 81), (9, 85),
      (10, 30), (11, 40), (12, 47), (13, 58), (15, 79), (16, 65), (17, 83), (18, 89)]"

text \<open>The points of the shell this kernel builds around the unit cube with one layer.\<close>

definition cube_shell_points :: "point list" where
  "cube_shell_points =
     [(0, 0, - 1), (0, 0, 0), (1, 0, - 1), (2, 0, - 1), (0, 1, - 1),
      (0, 2, - 1), (1, 1, - 1), (2, 1, - 1), (2, 2, - 1), (1, 2, - 1),
      (1, 0, 0), (2, 0, 0), (1, 0, 1), (2, 0, 1), (0, 1, 0), (0, 2, 0),
      (0, 1, 1), (0, 2, 1), (1, 1, 0), (2, 1, 0), (2, 2, 0), (1, 2, 0),
      (1, 1, 1), (2, 1, 1), (2, 2, 1), (1, 2, 1)]"

subsection \<open>Lemmas\<close>

lemma masked_assign_nth:
  "i < length msk \<Longrightarrow> i < length arr \<Longrightarrow>
   masked_assign msk v arr ! i = (if msk ! i then v else arr ! i)"
  by (simp add: masked_assign_def)

lemma length_masked_assign [simp]:
  "length (masked_assign msk v arr) = min (length msk) (length arr)"
  by (simp add: masked_assign_def)

lemma mask_and_nth:
  "i < length a \<Longrightarrow> i < length b \<Longrightarrow> mask_and a b ! i = (a ! i \<and> b ! i)"
  by (simp add: mask_and_def)

lemma length_mask_and [simp]: "length (mask_and a b) = min (length a) (length b)"
  by (simp add: mask_and_def)

lemma regionize_nth:
  assumes "i < length cc"
  shows "regionize cc ! i =
    (let l = is_left cc (cc ! i); r = is_right cc (cc ! i); f = is_front cc (cc ! i);
         b = is_back cc (cc ! i); d = is_bottom cc (cc ! i)
     in if r \<and> b \<and> d then 17 else if r \<and> f \<and> d then 16
        else if l \<and> b \<and> d then 15 else if l \<and> f \<and> d then 14
        else if b \<and> d then 13 else if f \<and> d then 12
        else if r \<and> d then 11 else if l \<and> d then 10
        else if r \<and> b then 9 else if r \<and> f then 8
        else if l \<and> b then 7 else if l \<and> f then 6
        else if d then 5 else if b then 4 else if f then 3
        else if r then 2 else if l then 1 else 0)"
proof -
  obtain xmin xmax ymin ymax zmin zmax where
    b: "bounds_of cc = (xmin, xmax, ymin, ymax, zmin, zmax)"
    by (metis prod_cases3)
  obtain x y z where c: "cc ! i = (x, y, z)"
    by (metis prod_cases3)
  define L where "L = map (\<lambda>(x, y, z). \<bar>x - xmin\<bar> < eps) cc"
  define R where "R = map (\<lambda>(x, y, z). \<bar>x - xmax\<bar> < eps) cc"
  define F where "F = map (\<lambda>(x, y, z). \<bar>y - ymin\<bar> < eps) cc"
  define B where "B = map (\<lambda>(x, y, z). \<bar>y - ymax\<bar> < eps) cc"
  define D where "D = map (\<lambda>(x, y, z). \<bar>z - zmin\<bar> < eps) cc"
  have len: "length L = length cc" "length R = length cc" "length F = length cc"
    "length B = length cc" "length D = length cc"
    by (simp_all add: L_def R_def F_def B_def D_def)
  have nth: "L ! i = is_left cc (cc ! i)" "R ! i = is_right cc (cc ! i)"
    "F ! i = is_front cc (cc ! i)" "B ! i = is_back cc (cc ! i)"
    "D ! i = is_bottom cc (cc ! i)"
    using assms
    by (simp_all add: L_def R_def F_def B_def D_def is_left_def is_right_def
        is_front_def is_back_def is_bottom_def b c)
  have "regionize cc ! i =
    (if R ! i \<and> B ! i \<and> D ! i then 17 else if R ! i \<and> F ! i \<and> D ! i then 16
        else if L ! i \<and> B ! i \<and> D ! i then 15 else if L ! i \<and> F ! i \<and> D ! i then 14
        else if B ! i \<and> D ! i then 13 else if F ! i \<and> D ! i then 12
        else if R ! i \<and> D ! i then 11 else if L ! i \<and> D ! i then 10
        else if R ! i \<and> B ! i then 9 else if R ! i \<and> F ! i then 8
        else if L ! i \<and> B ! i then 7 else if L ! i \<and> F ! i then 6
        else if D ! i then 5 else if B ! i then 4 else if F ! i then 3
        else if R ! i then 2 else if L ! i then 1 else 0)"
    unfolding regionize_def b prod.case Let_def
      L_def [symmetric] R_def [symmetric] F_def [symmetric] B_def [symmetric] D_def [symmetric]
    using assms len
    by (cases "L ! i"; cases "R ! i"; cases "F ! i"; cases "B ! i"; cases "D ! i";
        simp add: masked_assign_nth mask_and_nth)
  then show ?thesis
    by (simp only: nth Let_def)
qed

subsection \<open>Stitching and the call as a whole\<close>

lemma select_nodes_Inr:
  assumes "select_nodes nd (i0, i1) = Inr (m, sl)"
  shows "i0 < length nd \<and> i1 < length nd \<and>
    ((nd ! i0 = 9 \<and> nd ! i1 = 3 \<and> m = int i1 + 1 \<and> sl = int i0 + 1) \<or>
     (nd ! i0 = 3 \<and> nd ! i1 = 9 \<and> m = int i0 + 1 \<and> sl = int i1 + 1))"
  using assms by (auto simp add: select_nodes_def Let_def split: if_splits)

lemma equal_dof_loop_Inr:
  "equal_dof_loop nd ixs cs = (Inr u, cs') \<Longrightarrow>
   \<exists>ns. map (select_nodes nd) ixs = map Inr ns \<and> cs' = cs @ map constraint_of ns"
proof (induction ixs arbitrary: cs)
  case Nil
  then show ?case by simp
next
  case (Cons ix ixs)
  from Cons.prems obtain m sl where sel: "select_nodes nd ix = Inr (m, sl)"
    and rest: "equal_dof_loop nd ixs (create_equal_dof cs m [sl] [1, 2, 3]) = (Inr u, cs')"
    by (auto split: sum.splits)
  from Cons.IH [OF rest] obtain ns where
    ns: "map (select_nodes nd) ixs = map Inr ns"
      "cs' = create_equal_dof cs m [sl] [1, 2, 3] @ map constraint_of ns"
    by blast
  have "map (select_nodes nd) (ix # ixs) = map Inr ((m, sl) # ns)"
    using sel ns(1) by simp
  moreover have "cs' = cs @ map constraint_of ((m, sl) # ns)"
    using ns(2) by (simp add: create_equal_dof_def constraint_of_def)
  ultimately show ?case by blast
qed

lemma stitch_Inr:
  assumes "stitch K merged mesh cs = (Inr u, cs')"
  shows "\<exists>ns. map (select_nodes (ndf merged)) (query_indices K merged mesh) = map Inr ns \<and>
     cs' = cs @ map constraint_of ns"
  using assms
  by (auto simp add: stitch_def Let_def split: if_splits dest: equal_dof_loop_Inr)

lemma add_damping_region_keeps:
  "add_damping_region K s A rd = (r, s') \<Longrightarrow>
   mp s' = mp s \<and> AssembeledMesh s' = AssembeledMesh s \<and> element s' = element s"
  by (auto simp add: add_damping_region_def create_damping_def create_region_def Let_def
      split: prod.splits sum.splits)

lemma make_absorbing_keeps:
  assumes "make_absorbing K s mesh numLayers numPartitions rd md ty = (r, s')"
  shows "mp s' = mp s \<and> AssembeledMesh s' = AssembeledMesh s"
  using assms
  by (auto simp add: make_absorbing_def Let_def
      split: sum.splits prod.splits if_splits dest: add_damping_region_keeps)

lemma select_nodes_not_matching:
  "select_nodes nd ix \<noteq> Inl (ValueError PointsNotMatching)"
  by (cases ix) (simp add: select_nodes_def Let_def)

lemma equal_dof_loop_not_matching:
  "fst (equal_dof_loop nd ixs cs) \<noteq> Inl (ValueError PointsNotMatching)"
  by (induction ixs arbitrary: cs)
    (auto simp add: select_nodes_not_matching split: sum.splits)

lemma query_distances_Nil:
  "query_distances K merged mesh = [] \<longleftrightarrow> interface_points mesh = []"
  by (cases "interface_points mesh") (auto simp add: query_distances_def split: prod.splits)

lemma interface_points_zero [simp]:
  "interface_points (zero_AbsorbingRegion mesh) = interface_points mesh"
  by (simp add: interface_points_def zero_AbsorbingRegion_def)

lemma length_query_indices [simp]:
  "length (query_indices K merged mesh) = length (interface_points mesh)"
  by (simp add: query_indices_def)

lemma merge_and_stitch_Inr:
  assumes "merge_and_stitch K s mesh A ty = (Inr v, s')"
  shows "v = PyNone \<and>
    AssembeledMesh s' = Some ((pv_merge K (zero_AbsorbingRegion mesh) A (ty \<noteq> ''PML''))
                               \<lparr>active_scalars := Some ''AbsorbingRegion''\<rparr>) \<and>
    (if ty = ''PML''
     then stitch K ((pv_merge K (zero_AbsorbingRegion mesh) A (ty \<noteq> ''PML''))
                      \<lparr>active_scalars := Some ''AbsorbingRegion''\<rparr>)
            (zero_AbsorbingRegion mesh) (mp s) = (Inr (), mp s')
     else mp s' = mp s)"
  using assms
  by (auto simp add: merge_and_stitch_def Let_def split: if_splits prod.splits sum.splits)

lemma rect_Inr:
  assumes "addRectangularAbsorbingLayer K s numLayers numPartitions partitionAlgo rd md kw
      = (Inr v, s')"
  shows "\<exists>mesh ty A s1. AssembeledMesh s = Some mesh \<and> kw = Some ty \<and>
      (ty = ''PML'' \<or> ty = ''Rayleigh'') \<and> 1 \<le> numLayers \<and> 0 \<le> numPartitions \<and>
      cells mesh \<noteq> [] \<and> \<not> (numPartitions = 0 \<and> 0 < amax (map Core (cells mesh))) \<and>
      make_absorbing K s mesh numLayers numPartitions rd md ty = (Inr A, s1) \<and>
      merge_and_stitch K s1 mesh A ty = (Inr v, s')"
  using assms
  by (auto simp add: addRectangularAbsorbingLayer_def
      split: option.splits if_splits prod.splits sum.splits)

lemma top_Inr:
  assumes "addAbsorbingLayer K s numLayers numPartitions partitionAlgo geometry rd md kw
      = (Inr v, s')"
  shows "geometry = ''Rectangular'' \<and>
    addRectangularAbsorbingLayer K s numLayers numPartitions partitionAlgo rd md kw = (Inr v, s')"
  using assms
  by (auto simp add: addAbsorbingLayer_def split: if_splits)

lemma PML_run_Inr:
  assumes "addAbsorbingLayer K s numLayers numPartitions partitionAlgo geometry rd md
      (Some ''PML'') = (Inr v, s')"
  shows "\<exists>mesh merged ns. AssembeledMesh s = Some mesh \<and> AssembeledMesh s' = Some merged \<and>
     map (select_nodes (ndf merged)) (query_indices K merged (zero_AbsorbingRegion mesh))
       = map Inr ns \<and>
     mp s' = mp s @ map constraint_of ns \<and>
     query_distances K merged (zero_AbsorbingRegion mesh) \<noteq> [] \<and>
     amax (query_distances K merged (zero_AbsorbingRegion mesh)) \<le> 1 / 10 ^ 6"
proof -
  from top_Inr [OF assms] have
    "addRectangularAbsorbingLayer K s numLayers numPartitions partitionAlgo rd md (Some ''PML'')
       = (Inr v, s')"
    by simp
  from rect_Inr [OF this] obtain mesh A s1 where
    am: "AssembeledMesh s = Some mesh"
    and ma: "make_absorbing K s mesh numLayers numPartitions rd md ''PML'' = (Inr A, s1)"
    and ms: "merge_and_stitch K s1 mesh A ''PML'' = (Inr v, s')"
    by auto
  define merged where "merged = (pv_merge K (zero_AbsorbingRegion mesh) A False)
      \<lparr>active_scalars := Some ''AbsorbingRegion''\<rparr>"
  from merge_and_stitch_Inr [OF ms] have
    m': "AssembeledMesh s' = Some merged"
    and st: "stitch K merged (zero_AbsorbingRegion mesh) (mp s1) = (Inr (), mp s')"
    by (simp_all add: merged_def)
  from make_absorbing_keeps [OF ma] have mp1: "mp s1 = mp s" by simp
  from stitch_Inr [OF st] obtain ns where
    ns: "map (select_nodes (ndf merged)) (query_indices K merged (zero_AbsorbingRegion mesh))
          = map Inr ns"
      "mp s' = mp s @ map constraint_of ns"
    using mp1 by auto
  from st have "query_distances K merged (zero_AbsorbingRegion mesh) \<noteq> [] \<and>
     amax (query_distances K merged (zero_AbsorbingRegion mesh)) \<le> 1 / 10 ^ 6"
    by (auto simp add: stitch_def Let_def split: if_splits)
  with am m' ns show ?thesis by blast
qed

lemma query_distances_zero [simp]:
  "query_distances K merged (zero_AbsorbingRegion mesh) = query_distances K merged mesh"
  by (simp add: query_distances_def)

lemma query_indices_nth:
  "j < length (interface_points mesh) \<Longrightarrow>
   query_indices K merged mesh ! j = snd (kd_query K (points merged) (interface_points mesh ! j))"
  by (simp add: query_indices_def)

lemma query_indices_zero [simp]:
  "query_indices K merged (zero_AbsorbingRegion mesh) = query_indices K merged mesh"
  by (simp add: query_indices_def)

subsection \<open>The partition ids of the shell\<close>

lemma amax_Max: "xs \<noteq> [] \<Longrightarrow> amax xs = Max (set xs)"
proof (cases xs)
  case Nil
  assume "xs \<noteq> []"
  with Nil show ?thesis by simp
next
  case (Cons a list)
  then show ?thesis
    using Max.set_eq_fold [of a list] by simp
qed

lemma make_absorbing_Inr:
  assumes "make_absorbing K s mesh numLayers numPartitions rd md ty = (Inr A, s')"
  shows "\<exists>A0 dx cc A1 reg A2.
     build_shell K mesh (shrink_bounds (bounds_of (points mesh))) numLayers
       (if ty = ''PML'' then 9 else 3) = Inr (A0, dx, cc) \<and>
     (if ty = ''PML''
      then retag_PML K (element s) A0 (bounds_of (points mesh)) numLayers dx 9 = (Inr A1, reg)
      else A1 = A0 \<and> reg = element s) \<and>
     partition_shell K A1 numPartitions (amax (map Core (cells mesh))) = Inr A2 \<and>
     (if (ty = ''Rayleigh'' \<or> ty = ''PML'') \<and> \<not> md
      then add_damping_region K (s\<lparr>element := reg\<rparr>) A2 rd = (Inr A, s')
      else A = A2 \<and> s' = s\<lparr>element := reg\<rparr>)"
  using assms
  by (auto simp add: make_absorbing_def Let_def split: sum.splits prod.splits if_splits)

lemma build_shell_Core:
  assumes "build_shell K mesh bnds numLayers ndof = Inr (A, dx, cc)"
    and "c \<in> set (abs_cells A)"
  shows "a_Core c = 0"
  using assms
  by (auto simp add: build_shell_def Let_def split: sum.splits prod.splits if_splits)

lemma retag_PML_cells:
  assumes "retag_PML K reg A b numLayers dx ndof = (Inr A', reg')"
    and "c' \<in> set (abs_cells A')"
  shows "\<exists>c t. c \<in> set (abs_cells A) \<and> c' = c\<lparr>a_ElementTag := t\<rparr>"
proof -
  from assms obtain col where "c' \<in> set (map2 (\<lambda>c t. c\<lparr>a_ElementTag := t\<rparr>) (abs_cells A) col)"
    by (auto simp add: retag_PML_def Let_def split: sum.splits prod.splits)
  then obtain c t where "(c, t) \<in> set (zip (abs_cells A) col)" "c' = c\<lparr>a_ElementTag := t\<rparr>"
    by auto
  moreover from this have "c \<in> set (abs_cells A)"
    by (auto dest: set_zip_leftD)
  ultimately show ?thesis
    by (intro exI [of _ c] exI [of _ t]) simp
qed

lemma partition_shell_one:
  assumes "partition_shell K A 1 np = Inr A'" and "c \<in> set (abs_cells A')"
  shows "a_Core c = np + 1"
  using assms by (auto simp add: partition_shell_def)

lemma partition_shell_zero:
  assumes "partition_shell K A 0 np = Inr A'"
  shows "A' = A"
  using assms by (simp add: partition_shell_def)

lemma add_damping_region_Inr:
  assumes "add_damping_region K s A rd = (Inr A', s')"
  shows "\<exists>r w. regions (region s') = regions (region s) @ [r] \<and>
     region_tag r = region_next_tag (region s) \<and>
     store_uint16 (np_version K) (region_tag r) = Inr w \<and>
     abs_cells A' = map (\<lambda>c. c\<lparr>a_Region := w\<rparr>) (abs_cells A)"
  using assms
  by (auto simp add: add_damping_region_def create_damping_def create_region_def Let_def
      split: sum.splits)

lemma add_damping_region_cells:
  assumes "add_damping_region K s A rd = (Inr A', s')" and "c' \<in> set (abs_cells A')"
  shows "\<exists>c t. c \<in> set (abs_cells A) \<and> c' = c\<lparr>a_Region := t\<rparr>"
proof -
  from add_damping_region_Inr [OF assms(1)] obtain w where
    "abs_cells A' = map (\<lambda>c. c\<lparr>a_Region := w\<rparr>) (abs_cells A)"
    by blast
  with assms(2) obtain c where "c \<in> set (abs_cells A)" "c' = c\<lparr>a_Region := w\<rparr>"
    by auto
  then show ?thesis
    by (intro exI [of _ c] exI [of _ w]) simp
qed

lemma make_absorbing_Core:
  assumes ma: "make_absorbing K s mesh numLayers numPartitions rd md ty = (Inr A, s')"
    and c: "c \<in> set (abs_cells A)"
  shows "(numPartitions = 1 \<longrightarrow> a_Core c = amax (map Core (cells mesh)) + 1) \<and>
         (numPartitions = 0 \<longrightarrow> a_Core c = 0)"
proof -
  from make_absorbing_Inr [OF ma] obtain A0 dx cc A1 reg A2 where
    bs: "build_shell K mesh (shrink_bounds (bounds_of (points mesh))) numLayers
       (if ty = ''PML'' then 9 else 3) = Inr (A0, dx, cc)"
    and rt: "if ty = ''PML''
      then retag_PML K (element s) A0 (bounds_of (points mesh)) numLayers dx 9 = (Inr A1, reg)
      else A1 = A0 \<and> reg = element s"
    and ps: "partition_shell K A1 numPartitions (amax (map Core (cells mesh))) = Inr A2"
    and dr: "if (ty = ''Rayleigh'' \<or> ty = ''PML'') \<and> \<not> md
      then add_damping_region K (s\<lparr>element := reg\<rparr>) A2 rd = (Inr A, s')
      else A = A2 \<and> s' = s\<lparr>element := reg\<rparr>"
    by blast
  from dr c obtain c2 where c2: "c2 \<in> set (abs_cells A2)" and cc2: "a_Core c = a_Core c2"
    by (auto split: if_splits dest!: add_damping_region_cells)
  have one: "a_Core c2 = amax (map Core (cells mesh)) + 1" if "numPartitions = 1"
    using ps c2 that partition_shell_one by blast
  have zero: "a_Core c2 = 0" if np: "numPartitions = 0"
  proof -
    from ps np have "A2 = A1" by (simp add: partition_shell_zero)
    with c2 have c1: "c2 \<in> set (abs_cells A1)" by simp
    from rt c1 obtain c0 where "c0 \<in> set (abs_cells A0)" "a_Core c2 = a_Core c0"
      by (auto split: if_splits dest!: retag_PML_cells)
    with build_shell_Core [OF bs] show ?thesis by simp
  qed
  from one zero cc2 show ?thesis by simp
qed

lemma run_Inr:
  assumes "addAbsorbingLayer K s numLayers numPartitions partitionAlgo geometry rd md kw
      = (Inr v, s')"
  shows "\<exists>interior ty A s1. AssembeledMesh s = Some interior \<and> kw = Some ty \<and>
      cells interior \<noteq> [] \<and>
      \<not> (numPartitions = 0 \<and> 0 < amax (map Core (cells interior))) \<and>
      make_absorbing K s interior numLayers numPartitions rd md ty = (Inr A, s1) \<and>
      AssembeledMesh s' = Some ((pv_merge K (zero_AbsorbingRegion interior) A (ty \<noteq> ''PML''))
                                 \<lparr>active_scalars := Some ''AbsorbingRegion''\<rparr>)"
proof -
  from top_Inr [OF assms] have
    "addRectangularAbsorbingLayer K s numLayers numPartitions partitionAlgo rd md kw = (Inr v, s')"
    by simp
  from rect_Inr [OF this] obtain mesh ty A s1 where
    *: "AssembeledMesh s = Some mesh" "kw = Some ty" "cells mesh \<noteq> []"
      "\<not> (numPartitions = 0 \<and> 0 < amax (map Core (cells mesh)))"
      "make_absorbing K s mesh numLayers numPartitions rd md ty = (Inr A, s1)"
    and ms: "merge_and_stitch K s1 mesh A ty = (Inr v, s')"
    by blast
  from merge_and_stitch_Inr [OF ms] * show ?thesis
    by blast
qed

subsection \<open>The PML elements\<close>

lemma create_PML_elements_Cons:
  assumes "create_PML_elements reg numLayers dx b ndof (tag # rest) P = (Inr P', reg')"
  shows "\<exists>src dxv. get_element reg (uint tag) = Some src \<and>
     element_type src \<in> {''stdBrick'', ''bbarBrick'', ''SSPbrick''} \<and>
     material_name (element_material src) = ''ElasticIsotropic'' \<and>
     material_type (element_material src) = ''nDMaterial'' \<and> dx = Some dxv \<and>
     create_PML_elements
       (snd (create_element reg ''PML3D'' ndof (element_material src)
              (pml_element_params numLayers dxv b)))
       numLayers dx b ndof rest (P(tag \<mapsto> next_tag reg)) = (Inr P', reg')"
  using assms
  by (auto simp add: Let_def create_element_def split: option.splits if_splits prod.splits)

lemma create_element_next_tag [simp]:
  "next_tag (snd (create_element reg ty ndof mat params)) = next_tag reg + 1"
  by (simp add: create_element_def Let_def)

lemma create_element_elements [simp]:
  "elements (snd (create_element reg ty ndof mat params)) =
     (elements reg)(next_tag reg \<mapsto>
        \<lparr>element_tag = next_tag reg, element_type = ty, element_ndof = ndof,
         element_material = mat, element_params = Some params\<rparr>)"
  by (simp add: create_element_def Let_def)

lemma create_PML_elements_next_tag:
  "create_PML_elements reg numLayers dx b ndof tags P = (Inr P', reg') \<Longrightarrow>
   next_tag reg' = next_tag reg + int (length tags)"
proof (induction tags arbitrary: reg P)
  case Nil
  then show ?case by simp
next
  case (Cons tag rest)
  from create_PML_elements_Cons [OF Cons.prems] obtain src :: element and dxv where
    "create_PML_elements
       (snd (create_element reg ''PML3D'' ndof (element_material src)
              (pml_element_params numLayers dxv b)))
       numLayers dx b ndof rest (P(tag \<mapsto> next_tag reg)) = (Inr P', reg')"
    by blast
  from Cons.IH [OF this] show ?case by simp
qed

lemma create_PML_elements_other_keys:
  "create_PML_elements reg numLayers dx b ndof tags P = (Inr P', reg') \<Longrightarrow>
   t < next_tag reg \<or> next_tag reg + int (length tags) \<le> t \<Longrightarrow>
   elements reg' t = elements reg t"
proof (induction tags arbitrary: reg P)
  case Nil
  then show ?case by simp
next
  case (Cons tag rest)
  from create_PML_elements_Cons [OF Cons.prems(1)] obtain src :: element and dxv where
    rest: "create_PML_elements
       (snd (create_element reg ''PML3D'' ndof (element_material src)
              (pml_element_params numLayers dxv b)))
       numLayers dx b ndof rest (P(tag \<mapsto> next_tag reg)) = (Inr P', reg')"
    by blast
  from Cons.IH [OF rest] Cons.prems(2) show ?case
    by (auto split: if_splits)
qed

lemma create_PML_elements_fresh:
  "create_PML_elements reg numLayers dx b ndof tags P = (Inr P', reg') \<Longrightarrow>
   \<forall>t \<in> S. \<exists>e. elements reg t = Some e \<and> element_type e = ''PML3D'' \<Longrightarrow>
   k < length tags \<Longrightarrow>
   uint (tags ! k) \<notin> S \<and> (\<forall>j < k. uint (tags ! k) \<noteq> next_tag reg + int j)"
proof (induction tags arbitrary: reg P S k)
  case Nil
  then show ?case by simp
next
  case (Cons tag rest)
  from create_PML_elements_Cons [OF Cons.prems(1)] obtain src :: element and dxv where
    src: "get_element reg (uint tag) = Some src"
      "element_type src \<in> {''stdBrick'', ''bbarBrick'', ''SSPbrick''}"
    and rest: "create_PML_elements
       (snd (create_element reg ''PML3D'' ndof (element_material src)
              (pml_element_params numLayers dxv b)))
       numLayers dx b ndof rest (P(tag \<mapsto> next_tag reg)) = (Inr P', reg')"
    by blast
  have head: "uint tag \<notin> S"
  proof
    assume "uint tag \<in> S"
    with Cons.prems(2) obtain e where "elements reg (uint tag) = Some e" "element_type e = ''PML3D''"
      by blast
    with src show False by (auto simp add: get_element_def)
  qed
  show ?case
  proof (cases k)
    case 0
    with head show ?thesis by simp
  next
    case (Suc k')
    let ?reg1 = "snd (create_element reg ''PML3D'' ndof (element_material src)
              (pml_element_params numLayers dxv b))"
    have inv: "\<forall>t \<in> insert (next_tag reg) S. \<exists>e. elements ?reg1 t = Some e \<and> element_type e = ''PML3D''"
      using Cons.prems(2) by auto
    from Suc Cons.prems(3) have k': "k' < length rest" by simp
    from Cons.IH [OF rest inv k'] have
      a: "uint (rest ! k') \<notin> insert (next_tag reg) S"
      and b: "\<forall>j < k'. uint (rest ! k') \<noteq> next_tag reg + 1 + int j"
      by simp_all
    have "uint (rest ! k') \<noteq> next_tag reg + int j" if "j < Suc k'" for j
    proof (cases j)
      case 0
      with a show ?thesis by simp
    next
      case (Suc j')
      with that b show ?thesis by auto
    qed
    with a Suc show ?thesis by simp
  qed
qed

lemma create_PML_elements_map:
  "create_PML_elements reg numLayers dx b ndof tags P = (Inr P', reg') \<Longrightarrow>
   distinct tags \<Longrightarrow>
   (\<forall>k < length tags. P' (tags ! k) = Some (next_tag reg + int k)) \<and>
   (\<forall>t. t \<notin> set tags \<longrightarrow> P' t = P t)"
proof (induction tags arbitrary: reg P)
  case Nil
  then show ?case by simp
next
  case (Cons tag rest)
  from create_PML_elements_Cons [OF Cons.prems(1)] obtain src :: element and dxv where
    rest: "create_PML_elements
       (snd (create_element reg ''PML3D'' ndof (element_material src)
              (pml_element_params numLayers dxv b)))
       numLayers dx b ndof rest (P(tag \<mapsto> next_tag reg)) = (Inr P', reg')"
    by blast
  from Cons.prems(2) have d: "distinct rest" "tag \<notin> set rest" by simp_all
  from Cons.IH [OF rest d(1)] have
    ih1: "\<forall>k < length rest. P' (rest ! k) = Some (next_tag reg + 1 + int k)"
    and ih2: "\<forall>t. t \<notin> set rest \<longrightarrow> P' t = (P(tag \<mapsto> next_tag reg)) t"
    by simp_all
  have "P' ((tag # rest) ! k) = Some (next_tag reg + int k)" if "k < length (tag # rest)" for k
  proof (cases k)
    case 0
    with ih2 d(2) show ?thesis by simp
  next
    case (Suc k')
    with that ih1 show ?thesis by simp
  qed
  moreover have "P' t = P t" if "t \<notin> set (tag # rest)" for t
    using that ih2 by simp
  ultimately show ?case by blast
qed

lemma create_PML_elements_created:
  "create_PML_elements reg numLayers dx b ndof tags P = (Inr P', reg') \<Longrightarrow>
   k < length tags \<Longrightarrow>
   \<exists>src dxv. elements reg (uint (tags ! k)) = Some src \<and>
     element_type src \<in> {''stdBrick'', ''bbarBrick'', ''SSPbrick''} \<and>
     material_name (element_material src) = ''ElasticIsotropic'' \<and>
     material_type (element_material src) = ''nDMaterial'' \<and> dx = Some dxv \<and>
     elements reg' (next_tag reg + int k) =
       Some \<lparr>element_tag = next_tag reg + int k, element_type = ''PML3D'',
             element_ndof = ndof, element_material = element_material src,
             element_params = Some (pml_element_params numLayers dxv b)\<rparr>"
proof (induction tags arbitrary: reg P k)
  case Nil
  then show ?case by simp
next
  case (Cons tag rest)
  from create_PML_elements_Cons [OF Cons.prems(1)] obtain src :: element and dxv where
    src: "get_element reg (uint tag) = Some src"
      "element_type src \<in> {''stdBrick'', ''bbarBrick'', ''SSPbrick''}"
      "material_name (element_material src) = ''ElasticIsotropic''"
      "material_type (element_material src) = ''nDMaterial''" "dx = Some dxv"
    and rest: "create_PML_elements
       (snd (create_element reg ''PML3D'' ndof (element_material src)
              (pml_element_params numLayers dxv b)))
       numLayers dx b ndof rest (P(tag \<mapsto> next_tag reg)) = (Inr P', reg')"
    by blast
  let ?reg1 = "snd (create_element reg ''PML3D'' ndof (element_material src)
              (pml_element_params numLayers dxv b))"
  show ?case
  proof (cases k)
    case 0
    have "elements reg' (next_tag reg) = elements ?reg1 (next_tag reg)"
      using create_PML_elements_other_keys [OF rest, of "next_tag reg"] by simp
    with 0 src show ?thesis
      by (simp add: get_element_def)
  next
    case (Suc k')
    with Cons.prems(2) have k': "k' < length rest" by simp
    from Cons.IH [OF rest k'] obtain src' :: element and dxv' where
      ih: "elements ?reg1 (uint (rest ! k')) = Some src'"
        "element_type src' \<in> {''stdBrick'', ''bbarBrick'', ''SSPbrick''}"
        "material_name (element_material src') = ''ElasticIsotropic''"
        "material_type (element_material src') = ''nDMaterial''" "dx = Some dxv'"
        "elements reg' (next_tag ?reg1 + int k') =
          Some \<lparr>element_tag = next_tag ?reg1 + int k', element_type = ''PML3D'',
             element_ndof = ndof, element_material = element_material src',
             element_params = Some (pml_element_params numLayers dxv' b)\<rparr>"
      by blast
    have inv: "\<forall>t \<in> {next_tag reg}. \<exists>e. elements ?reg1 t = Some e \<and> element_type e = ''PML3D''"
      by simp
    from create_PML_elements_fresh [OF rest inv k'] have "uint (rest ! k') \<noteq> next_tag reg"
      by simp
    with ih(1) have "elements reg (uint (rest ! k')) = Some src'"
      by simp
    moreover have "next_tag ?reg1 + int k' = next_tag reg + int k"
      using Suc by simp
    ultimately show ?thesis
      using ih Suc by (intro exI [of _ src'] exI [of _ dxv']) (simp add: algebra_simps)
  qed
qed

lemma store_uint16_Inr: "store_uint16 ver x = Inr w \<Longrightarrow> w = word_of_int x"
  by (simp add: store_uint16_def split: if_splits)

lemma store_uint16_NumPy_2:
  "store_uint16 NumPy_2 x = Inr w \<longleftrightarrow> 0 \<le> x \<and> x \<le> 65535 \<and> w = word_of_int x"
  by (auto simp add: store_uint16_def)

lemma store_uint16_NumPy_1: "store_uint16 NumPy_1 x = Inr (word_of_int x)"
  by (simp add: store_uint16_def)

lemma update_element_tags_nth:
  "update_element_tags ver P tags col = Inr col' \<Longrightarrow>
   \<forall>k k'. k < k' \<longrightarrow> k' < length tags \<longrightarrow>
      (\<forall>t. P (tags ! k) = Some t \<longrightarrow> word_of_int t \<noteq> tags ! k') \<Longrightarrow>
   length col' = length col \<and>
   (\<forall>i < length col. col' ! i =
      (if col ! i \<in> set tags then word_of_int (the (P (col ! i))) else col ! i))"
proof (induction tags arbitrary: col)
  case Nil
  then show ?case by simp
next
  case (Cons tag rest)
  from Cons.prems(1) obtain t w where t: "P tag = Some t"
    and w: "store_uint16 ver t = Inr w"
    and rest0: "update_element_tags ver P rest
        (masked_assign (map (\<lambda>v. v = tag) col) w col) = Inr col'"
    by (auto split: option.splits sum.splits)
  from store_uint16_Inr [OF w] rest0 have
    rest: "update_element_tags ver P rest
        (masked_assign (map (\<lambda>v. v = tag) col) (word_of_int t) col) = Inr col'"
    by simp
  let ?col1 = "masked_assign (map (\<lambda>v. v = tag) col) (word_of_int t) col"
  have nochain: "\<forall>k k'. k < k' \<longrightarrow> k' < length rest \<longrightarrow>
      (\<forall>t. P (rest ! k) = Some t \<longrightarrow> word_of_int t \<noteq> rest ! k')"
  proof (intro allI impI)
    fix k k' t'
    assume "k < k'" "k' < length rest" "P (rest ! k) = Some t'"
    with Cons.prems(2) [rule_format, of "Suc k" "Suc k'" t']
    show "word_of_int t' \<noteq> rest ! k'" by simp
  qed
  have head: "word_of_int t \<notin> set rest"
  proof
    assume "word_of_int t \<in> set rest"
    then obtain k' where "k' < length rest" "rest ! k' = word_of_int t"
      by (auto simp add: in_set_conv_nth)
    with Cons.prems(2) [rule_format, of 0 "Suc k'" t] t
    show False by simp
  qed
  from Cons.IH [OF rest nochain] have
    len: "length col' = length ?col1"
    and nth: "\<forall>i < length ?col1. col' ! i =
      (if ?col1 ! i \<in> set rest then word_of_int (the (P (?col1 ! i))) else ?col1 ! i)"
    by simp_all
  have l1: "length ?col1 = length col" by simp
  have "col' ! i =
      (if col ! i \<in> set (tag # rest) then word_of_int (the (P (col ! i))) else col ! i)"
    if i: "i < length col" for i
  proof -
    have c1: "?col1 ! i = (if col ! i = tag then word_of_int t else col ! i)"
      using i by (simp add: masked_assign_nth)
    from nth i l1 have "col' ! i =
      (if ?col1 ! i \<in> set rest then word_of_int (the (P (?col1 ! i))) else ?col1 ! i)"
      by simp
    then show ?thesis
      using c1 head t by auto
  qed
  with len l1 show ?case by simp
qed

lemma set_unique [simp]: "set (unique xs) = set xs"
  by (simp add: unique_def)

lemma distinct_unique [simp]: "distinct (unique xs)"
  by (simp add: unique_def)

lemma length_unique: "length (unique xs) = card (set xs)"
  by (simp add: unique_def length_remdups_card_conv)

lemma retag_PML_Inr:
  assumes "retag_PML K reg A b numLayers dx ndof = (Inr A', reg')"
  shows "\<exists>P col.
     create_PML_elements reg numLayers dx b ndof (unique (map a_ElementTag (abs_cells A)))
       Map.empty = (Inr P, reg') \<and>
     update_element_tags (np_version K) P (unique (map a_ElementTag (abs_cells A)))
       (map a_ElementTag (abs_cells A)) = Inr col \<and>
     A' = A\<lparr>abs_cells := map2 (\<lambda>c t. c\<lparr>a_ElementTag := t\<rparr>) (abs_cells A) col\<rparr>"
  using assms
  by (auto simp add: retag_PML_def Let_def split: sum.splits prod.splits)

lemma uint_word_of_int_16:
  "0 \<le> x \<Longrightarrow> x < 65536 \<Longrightarrow> uint (word_of_int x :: 16 word) = x"
  by (simp add: uint_word_of_int take_bit_eq_mod)

subsection \<open>The one-cell example, evaluated\<close>

lemmas shell_example_defs =
  make_absorbing_def shrink_bounds_def Let_def build_shell_def test_kernel_def matching_kernel_def bounds_of_def
  centroid_def regionize_def masked_assign_def mask_and_def eps_def extrude_cell_def
  py_index_def normals_def broadcast_tags_def shell_cell_def extract_cells_def
  partition_shell_def retag_PML_def unique_def get_element_def create_element_def
  pml_element_params_def brick_def elastic_def add_damping_region_def create_damping_def
  create_region_def cube_model_def cube_mesh_def cube_points_def store_uint16_def

lemma cube_PML_shell:
  "fst (make_absorbing matching_kernel cube_model cube_mesh 1 1 (19 / 20) False ''PML'')
     = Inr cube_shell"
  by (simp add: shell_example_defs cube_shell_def)

lemma cube_interface_points:
  "interface_points cube_mesh = cube_points"
  by (simp add: interface_points_def cube_mesh_def cube_points_def bounds_of_def eps_def)

lemma cube_query_distances:
  "map (\<lambda>p. case exact_query (cube_points @ cube_points) p of
               ((d0, d1), ix) \<Rightarrow> [\<bar>d0\<bar>, \<bar>d1\<bar>]) cube_points =
     [[0, 0], [0, 0], [0, 0], [0, 0], [0, 0], [0, 0], [0, 0], [0, 0]]"
  by (simp add: exact_query_def cube_points_def)

lemma cube_query_indices:
  "map (\<lambda>p. snd (exact_query (cube_points @ cube_points) p)) cube_points =
     [(0, 8), (1, 9), (2, 10), (3, 11), (4, 12), (5, 13), (6, 14), (7, 15)]"
  by (simp add: exact_query_def cube_points_def)

lemma cube_stitch:
  "stitch matching_kernel
     ((pv_merge matching_kernel (zero_AbsorbingRegion cube_mesh) cube_shell False)
        \<lparr>active_scalars := Some ''AbsorbingRegion''\<rparr>)
     (zero_AbsorbingRegion cube_mesh) [] =
   (Inr (), map constraint_of [(1, 9), (2, 10), (3, 11), (4, 12), (5, 13), (6, 14), (7, 15), (8, 16)])"
proof -
  have pts: "points (zero_AbsorbingRegion cube_mesh) = cube_points"
    and nd: "ndf (zero_AbsorbingRegion cube_mesh) = [3, 3, 3, 3, 3, 3, 3, 3]"
    by (simp_all add: zero_AbsorbingRegion_def cube_mesh_def)
  show ?thesis
    by (simp add: stitch_def query_distances_def query_indices_def Let_def
        matching_kernel_def test_kernel_def cube_interface_points pts nd cube_shell_def
        cube_query_distances cube_query_indices select_nodes_def create_equal_dof_def constraint_of_def)
qed

lemma cube_merged_ndf:
  "ndf ((pv_merge matching_kernel (zero_AbsorbingRegion cube_mesh) cube_shell False)
          \<lparr>active_scalars := Some ''AbsorbingRegion''\<rparr>) =
     [3, 3, 3, 3, 3, 3, 3, 3, 9, 9, 9, 9, 9, 9, 9, 9]"
  by (simp add: matching_kernel_def test_kernel_def zero_AbsorbingRegion_def cube_mesh_def
      cube_shell_def)

lemma cube_PML_run:
  "\<exists>s' merged. addAbsorbingLayer matching_kernel cube_model 1 1 ''kd-tree'' ''Rectangular''
      (19 / 20) False (Some ''PML'') = (Inr PyNone, s') \<and>
      mp s' = map constraint_of
        [(1, 9), (2, 10), (3, 11), (4, 12), (5, 13), (6, 14), (7, 15), (8, 16)] \<and>
      AssembeledMesh s' = Some merged \<and>
      ndf merged = [3, 3, 3, 3, 3, 3, 3, 3, 9, 9, 9, 9, 9, 9, 9, 9]"
proof -
  obtain r s1 where ma:
    "make_absorbing matching_kernel cube_model cube_mesh 1 1 (19 / 20) False ''PML'' = (r, s1)"
    by fastforce
  with cube_PML_shell have r: "r = Inr cube_shell" by simp
  from make_absorbing_keeps [OF ma] have s1: "mp s1 = []"
    by (simp add: cube_model_def)
  have am: "AssembeledMesh cube_model = Some cube_mesh"
    by (simp add: cube_model_def)
  have cs: "cells cube_mesh \<noteq> []" "amax (map Core (cells cube_mesh)) = 0"
    by (simp_all add: cube_mesh_def)
  show ?thesis
    by (simp add: addAbsorbingLayer_def addRectangularAbsorbingLayer_def am cs ma r
        merge_and_stitch_def Let_def s1 cube_stitch cube_merged_ndf)
qed

lemma cube_Rayleigh_run:
  "fst (addAbsorbingLayer test_kernel cube_model 1 0 ''kd-tree'' ''Rectangular'' (19 / 20) True
     (Some ''Rayleigh'')) = Inr PyNone"
  by (simp add: shell_example_defs addAbsorbingLayer_def addRectangularAbsorbingLayer_def
      merge_and_stitch_def zero_AbsorbingRegion_def as_icell_def)

subsection \<open>Region codes\<close>

text \<open>
  Claim C3, as the code has it. Every clipped cell receives exactly one region code, in
  the range 0 to 17, computed from its five face memberships (tolerance \<open>eps\<close>) by the
  seventeen assignments in their fixed order; the code is 0 exactly for a cell that
  matches no face. A cell that matches left, front and bottom never gets a single-face
  or two-face code: its code is one of the three-face codes 14 to 17, and it is 14
  exactly when the cell matches neither right nor back (the later assignments 15, 16
  and 17 overwrite 14 on a mesh that is one cell wide in x or in y).
\<close>

theorem region_codes:
  assumes "i < length cc"
  shows "length (regionize cc) = length cc \<and>
    0 \<le> regionize cc ! i \<and> regionize cc ! i \<le> 17 \<and>
    (regionize cc ! i = 0 \<longleftrightarrow>
       \<not> (is_left cc (cc ! i) \<or> is_right cc (cc ! i) \<or> is_front cc (cc ! i) \<or>
          is_back cc (cc ! i) \<or> is_bottom cc (cc ! i))) \<and>
    (is_left cc (cc ! i) \<and> is_front cc (cc ! i) \<and> is_bottom cc (cc ! i) \<longrightarrow>
       14 \<le> regionize cc ! i \<and>
       (regionize cc ! i = 14 \<longleftrightarrow> \<not> is_right cc (cc ! i) \<and> \<not> is_back cc (cc ! i)))"
proof -
  have len: "length (regionize cc) = length cc"
    by (simp add: regionize_def Let_def split: prod.splits)
  show ?thesis
    unfolding regionize_nth [OF assms] Let_def
    using len by auto
qed

text \<open>
  Two cells with centres \<open>(1/2, 1/2, 1/2)\<close> and \<open>(3/2, 3/2, 1/2)\<close>: the first
  matches left, front and bottom only, and gets code 14.
\<close>

theorem region_codes_witness:
  "(0::nat) < length [(1 / 2, 1 / 2, 1 / 2), (3 / 2, 3 / 2, 1 / 2) :: point] \<and>
   is_left [(1 / 2, 1 / 2, 1 / 2), (3 / 2, 3 / 2, 1 / 2)] (1 / 2, 1 / 2, 1 / 2) \<and>
   is_front [(1 / 2, 1 / 2, 1 / 2), (3 / 2, 3 / 2, 1 / 2)] (1 / 2, 1 / 2, 1 / 2) \<and>
   is_bottom [(1 / 2, 1 / 2, 1 / 2), (3 / 2, 3 / 2, 1 / 2)] (1 / 2, 1 / 2, 1 / 2) \<and>
   regionize [(1 / 2, 1 / 2, 1 / 2), (3 / 2, 3 / 2, 1 / 2)] ! 0 = 14"
  using region_codes [of 0 "[(1 / 2, 1 / 2, 1 / 2), (3 / 2, 3 / 2, 1 / 2)]"]
  by (simp add: is_left_def is_right_def is_front_def is_back_def is_bottom_def
      bounds_of_def eps_def)

text \<open>
  The claim as stated (a cell matching left, front and bottom always gets 14) fails on
  a mesh that is one cell wide in x: of the two cells with centres \<open>(1/2, 1/2, 1/2)\<close>
  and \<open>(1/2, 3/2, 1/2)\<close> the first matches left, front and bottom, and right as well,
  and gets 16. The single cell of a one-element mesh matches all five faces and gets 17.
\<close>

theorem region_code_counterexample:
  "is_left [(1 / 2, 1 / 2, 1 / 2), (1 / 2, 3 / 2, 1 / 2)] (1 / 2, 1 / 2, 1 / 2) \<and>
   is_front [(1 / 2, 1 / 2, 1 / 2), (1 / 2, 3 / 2, 1 / 2)] (1 / 2, 1 / 2, 1 / 2) \<and>
   is_bottom [(1 / 2, 1 / 2, 1 / 2), (1 / 2, 3 / 2, 1 / 2)] (1 / 2, 1 / 2, 1 / 2) \<and>
   regionize [(1 / 2, 1 / 2, 1 / 2), (1 / 2, 3 / 2, 1 / 2)] ! 0 = 16 \<and>
   regionize [(1 / 2, 1 / 2, 1 / 2)] ! 0 = 17"
  by (simp add: regionize_def is_left_def is_front_def is_bottom_def bounds_of_def eps_def
      masked_assign_def mask_and_def)

subsection \<open>Argument validation\<close>

text \<open>
  Claim C8, as the code has it. The checks run in a fixed order, and an unimplemented
  feature is reported only when every earlier check passes. For a call on an assembled
  mesh with \<open>numLayers \<ge> 1\<close> and \<open>numPartitions \<ge> 0\<close>:
  \<^verbatim>\<open>partitionAlgo="metis"\<close> with a known geometry raises
  \<^verbatim>\<open>NotImplementedError\<close>; \<^verbatim>\<open>geometry="Cylindrical"\<close> with
  \<^verbatim>\<open>"kd-tree"\<close> raises \<^verbatim>\<open>NotImplementedError\<close>, whatever the type;
  \<^verbatim>\<open>type="ASDA"\<close> with \<^verbatim>\<open>"Rectangular"\<close> and
  \<^verbatim>\<open>"kd-tree"\<close> raises \<^verbatim>\<open>NotImplementedError\<close> with the state
  untouched and whatever the geometry kernel would compute, so before any extrusion. An
  unknown geometry raises \<^verbatim>\<open>ValueError\<close>; an unknown algorithm raises
  \<^verbatim>\<open>ValueError\<close> when the geometry is known; a missing or unknown type raises
  \<^verbatim>\<open>ValueError\<close> when the geometry is \<^verbatim>\<open>"Rectangular"\<close> and the
  algorithm \<^verbatim>\<open>"kd-tree"\<close>. The two exception classes are distinct.
\<close>

theorem unimplemented_features:
  assumes "AssembeledMesh s \<noteq> None" and "1 \<le> numLayers" and "0 \<le> numPartitions"
  shows
    "(geometry \<in> {''Rectangular'', ''Cylindrical''} \<longrightarrow>
        addAbsorbingLayer K s numLayers numPartitions ''metis'' geometry rd md kw
          = (Inl (NotImplementedError Metis), s)) \<and>
     addAbsorbingLayer K s numLayers numPartitions ''kd-tree'' ''Cylindrical'' rd md kw
          = (Inl (NotImplementedError Cylindrical), s) \<and>
     addAbsorbingLayer K s numLayers numPartitions ''kd-tree'' ''Rectangular'' rd md (Some ''ASDA'')
          = (Inl (NotImplementedError ASDA), s) \<and>
     (geometry \<notin> {''Rectangular'', ''Cylindrical''} \<longrightarrow>
        addAbsorbingLayer K s numLayers numPartitions partitionAlgo geometry rd md kw
          = (Inl (ValueError BadGeometry), s)) \<and>
     (geometry \<in> {''Rectangular'', ''Cylindrical''} \<and> partitionAlgo \<notin> {''kd-tree'', ''metis''} \<longrightarrow>
        addAbsorbingLayer K s numLayers numPartitions partitionAlgo geometry rd md kw
          = (Inl (ValueError BadPartitionAlgo), s)) \<and>
     addAbsorbingLayer K s numLayers numPartitions ''kd-tree'' ''Rectangular'' rd md None
          = (Inl (ValueError TypeMissing), s) \<and>
     (ty \<notin> {''PML'', ''Rayleigh'', ''ASDA''} \<longrightarrow>
        addAbsorbingLayer K s numLayers numPartitions ''kd-tree'' ''Rectangular'' rd md (Some ty)
          = (Inl (ValueError BadType), s)) \<and>
     (\<forall>r f. ValueError r \<noteq> NotImplementedError f)"
  using assms
  by (auto simp add: addAbsorbingLayer_def addRectangularAbsorbingLayer_def
      split: option.splits)

theorem unimplemented_features_witness:
  "AssembeledMesh cube_model \<noteq> None \<and>
   addAbsorbingLayer test_kernel cube_model 1 0 ''metis'' ''Rectangular'' (19 / 20) False (Some ''PML'')
     = (Inl (NotImplementedError Metis), cube_model) \<and>
   addAbsorbingLayer test_kernel cube_model 1 0 ''kd-tree'' ''Cylindrical'' (19 / 20) False (Some ''PML'')
     = (Inl (NotImplementedError Cylindrical), cube_model) \<and>
   addAbsorbingLayer test_kernel cube_model 1 0 ''kd-tree'' ''Rectangular'' (19 / 20) False (Some ''ASDA'')
     = (Inl (NotImplementedError ASDA), cube_model) \<and>
   addAbsorbingLayer test_kernel cube_model 1 0 ''kd-tree'' ''Spherical'' (19 / 20) False (Some ''PML'')
     = (Inl (ValueError BadGeometry), cube_model) \<and>
   addAbsorbingLayer test_kernel cube_model 1 0 ''scotch'' ''Rectangular'' (19 / 20) False (Some ''PML'')
     = (Inl (ValueError BadPartitionAlgo), cube_model) \<and>
   addAbsorbingLayer test_kernel cube_model 1 0 ''kd-tree'' ''Rectangular'' (19 / 20) False (Some ''Lysmer'')
     = (Inl (ValueError BadType), cube_model)"
  using unimplemented_features [where s = cube_model and numLayers = 1 and numPartitions = 0
      and K = test_kernel and rd = "19 / 20" and md = False and kw = "Some ''PML''"
      and geometry = "''Rectangular''" and partitionAlgo = "''scotch''" and ty = "''Lysmer''"]
    unimplemented_features [where s = cube_model and numLayers = 1 and numPartitions = 0
      and K = test_kernel and rd = "19 / 20" and md = False and kw = "Some ''PML''"
      and geometry = "''Spherical''" and partitionAlgo = "''kd-tree''" and ty = "''Lysmer''"]
  by (simp add: cube_model_def)

text \<open>
  The claim as stated fails where two of its clauses meet, or where an earlier check
  fails: \<^verbatim>\<open>"metis"\<close> with an unknown geometry raises
  \<^verbatim>\<open>ValueError\<close>, \<^verbatim>\<open>type="ASDA"\<close> with \<^verbatim>\<open>numLayers=0\<close>
  raises \<^verbatim>\<open>ValueError\<close>, and an unknown type with
  \<^verbatim>\<open>"Cylindrical"\<close> raises \<^verbatim>\<open>NotImplementedError\<close>.
\<close>

theorem unimplemented_features_counterexample:
  "fst (addAbsorbingLayer test_kernel cube_model 1 0 ''metis'' ''Spherical'' (19 / 20) False (Some ''PML''))
     = Inl (ValueError BadGeometry) \<and>
   fst (addAbsorbingLayer test_kernel cube_model 0 0 ''kd-tree'' ''Rectangular'' (19 / 20) False (Some ''ASDA''))
     = Inl (ValueError LayersLessThanOne) \<and>
   fst (addAbsorbingLayer test_kernel cube_model 1 0 ''kd-tree'' ''Cylindrical'' (19 / 20) False (Some ''Lysmer''))
     = Inl (NotImplementedError Cylindrical)"
  by (simp add: addAbsorbingLayer_def cube_model_def)

text \<open>
  Claim C9. When the assembled mesh is missing, \<open>numLayers < 1\<close>,
  \<open>numPartitions < 0\<close>, the geometry, the algorithm or the type is not one of the
  known strings (or the type is not given), or \<open>numPartitions = 0\<close> on a mesh whose
  largest \<^verbatim>\<open>Core\<close> is positive, the call raises and leaves the whole state, and
  with it the persistent assembled mesh, as it was.
\<close>

theorem validation_failure_keeps_state:
  assumes "AssembeledMesh s = None \<or> numLayers < 1 \<or> numPartitions < 0 \<or>
     geometry \<notin> {''Rectangular'', ''Cylindrical''} \<or>
     partitionAlgo \<notin> {''kd-tree'', ''metis''} \<or>
     kw = None \<or> (\<exists>ty. kw = Some ty \<and> ty \<notin> {''PML'', ''Rayleigh'', ''ASDA''}) \<or>
     (numPartitions = 0 \<and>
        (\<exists>mesh. AssembeledMesh s = Some mesh \<and> cells mesh \<noteq> [] \<and>
                0 < amax (map Core (cells mesh))))"
  shows "\<exists>e. addAbsorbingLayer K s numLayers numPartitions partitionAlgo geometry rd md kw
            = (Inl e, s)"
  using assms
  by (auto simp add: addAbsorbingLayer_def addRectangularAbsorbingLayer_def
      split: option.splits)

theorem validation_failure_keeps_state_witness:
  "(0::int) < amax (map Core (cells (the (AssembeledMesh partitioned_model)))) \<and>
   addAbsorbingLayer test_kernel partitioned_model 1 0 ''kd-tree'' ''Rectangular'' (19 / 20)
     False (Some ''PML'') = (Inl (ValueError PartitionsOnPartitionedMesh), partitioned_model) \<and>
   addAbsorbingLayer test_kernel cube_model 0 0 ''kd-tree'' ''Rectangular'' (19 / 20)
     False (Some ''PML'') = (Inl (ValueError LayersLessThanOne), cube_model)"
  using validation_failure_keeps_state [where s = partitioned_model and numLayers = 1
      and numPartitions = 0 and K = test_kernel and rd = "19 / 20" and md = False
      and kw = "Some ''PML''" and geometry = "''Rectangular''" and partitionAlgo = "''kd-tree''"]
    validation_failure_keeps_state [where s = cube_model and numLayers = 0
      and numPartitions = 0 and K = test_kernel and rd = "19 / 20" and md = False
      and kw = "Some ''PML''" and geometry = "''Rectangular''" and partitionAlgo = "''kd-tree''"]
  by (simp add: addAbsorbingLayer_def addRectangularAbsorbingLayer_def partitioned_model_def
      cube_model_def cube_mesh_def)

subsection \<open>The return value\<close>

text \<open>
  Claim C7 says that a call that raises no error returns \<^verbatim>\<open>True\<close>, as the
  docstrings of both methods do. The code never does:
  \<^verbatim>\<open>_addRectangularAbsorbingLayer\<close> ends without a \<^verbatim>\<open>return\<close>
  statement, so every successful call returns \<^verbatim>\<open>None\<close>.
\<close>

theorem returns_None:
  assumes "addAbsorbingLayer K s numLayers numPartitions partitionAlgo geometry rd md kw
      = (Inr v, s')"
  shows "v = PyNone"
proof -
  from top_Inr [OF assms] rect_Inr obtain mesh ty A s1 where
    "merge_and_stitch K s1 mesh A ty = (Inr v, s')"
    by blast
  then show ?thesis
    using merge_and_stitch_Inr by blast
qed

theorem returns_None_witness:
  "\<exists>s'. addAbsorbingLayer test_kernel cube_model 1 0 ''kd-tree'' ''Rectangular'' (19 / 20) True
     (Some ''Rayleigh'') = (Inr PyNone, s')"
proof -
  obtain v s' where run:
    "addAbsorbingLayer test_kernel cube_model 1 0 ''kd-tree'' ''Rectangular'' (19 / 20) True
       (Some ''Rayleigh'') = (Inr v, s')"
    using cube_Rayleigh_run by (metis prod.collapse)
  from returns_None [OF run] run show ?thesis by blast
qed

subsection \<open>Master and slave of an equal-DOF constraint\<close>

text \<open>
  Claim C1, as the code has it. Of the two neighbours found for an interface point, the
  one with \<^verbatim>\<open>ndf == 3\<close> (the node of the interior mesh) is the master and the one
  with \<^verbatim>\<open>ndf == 9\<close> (the node of the absorbing layer) is the slave, in both
  orders the query can return them; the node numbers are the point indices plus one.
  Any other combination of the two \<^verbatim>\<open>ndf\<close> values raises
  \<^verbatim>\<open>ValueError\<close>. Every constraint a successful PML call adds has one slave
  with \<^verbatim>\<open>ndf == 9\<close>, a master with \<^verbatim>\<open>ndf == 3\<close> and the DOFs 1, 2, 3.
\<close>

theorem master_and_slave:
  "(select_nodes nd (i0, i1) = Inr (masterNode, slaveNode) \<longrightarrow>
      {masterNode, slaveNode} = {int i0 + 1, int i1 + 1} \<and>
      nd ! nat (masterNode - 1) = 3 \<and> nd ! nat (slaveNode - 1) = 9) \<and>
   (i0 < length nd \<and> i1 < length nd \<and>
      (nd ! i0, nd ! i1) \<noteq> (9, 3) \<and> (nd ! i0, nd ! i1) \<noteq> (3, 9) \<longrightarrow>
      select_nodes nd (i0, i1) = Inl (ValueError BadNdf)) \<and>
   (addAbsorbingLayer K s numLayers numPartitions partitionAlgo geometry rd md (Some ''PML'')
      = (Inr v, s') \<longrightarrow>
      (\<exists>merged. AssembeledMesh s' = Some merged \<and>
         (\<forall>c \<in> set (drop (length (mp s)) (mp s')).
            \<exists>sl. slave_nodes c = [sl] \<and> dofs c = [1, 2, 3] \<and>
                 ndf merged ! nat (master_node c - 1) = 3 \<and>
                 ndf merged ! nat (sl - 1) = 9)))"
proof (intro conjI impI)
  assume "select_nodes nd (i0, i1) = Inr (masterNode, slaveNode)"
  from select_nodes_Inr [OF this]
  show "{masterNode, slaveNode} = {int i0 + 1, int i1 + 1}"
    and "nd ! nat (masterNode - 1) = 3" and "nd ! nat (slaveNode - 1) = 9"
    by auto
next
  assume "i0 < length nd \<and> i1 < length nd \<and>
      (nd ! i0, nd ! i1) \<noteq> (9, 3) \<and> (nd ! i0, nd ! i1) \<noteq> (3, 9)"
  then show "select_nodes nd (i0, i1) = Inl (ValueError BadNdf)"
    by (auto simp add: select_nodes_def Let_def)
next
  assume run: "addAbsorbingLayer K s numLayers numPartitions partitionAlgo geometry rd md
      (Some ''PML'') = (Inr v, s')"
  from PML_run_Inr [OF run] obtain mesh merged ns where
    m': "AssembeledMesh s' = Some merged"
    and sel: "map (select_nodes (ndf merged))
        (query_indices K merged (zero_AbsorbingRegion mesh)) = map Inr ns"
    and mp': "mp s' = mp s @ map constraint_of ns"
    by blast
  have "\<exists>sl. slave_nodes c = [sl] \<and> dofs c = [1, 2, 3] \<and>
          ndf merged ! nat (master_node c - 1) = 3 \<and> ndf merged ! nat (sl - 1) = 9"
    if "c \<in> set (drop (length (mp s)) (mp s'))" for c
  proof -
    from that mp' obtain n where n: "n \<in> set ns" and c: "c = constraint_of n"
      by auto
    from n have "Inr n \<in> set (map (select_nodes (ndf merged))
        (query_indices K merged (zero_AbsorbingRegion mesh)))"
      using sel by simp
    then obtain ix where "select_nodes (ndf merged) ix = Inr n"
      by auto
    then have "select_nodes (ndf merged) (fst ix, snd ix) = Inr (fst n, snd n)"
      by simp
    from select_nodes_Inr [OF this] show ?thesis
      by (auto simp add: c constraint_of_def)
  qed
  with m' show "\<exists>merged. AssembeledMesh s' = Some merged \<and>
         (\<forall>c \<in> set (drop (length (mp s)) (mp s')).
            \<exists>sl. slave_nodes c = [sl] \<and> dofs c = [1, 2, 3] \<and>
                 ndf merged ! nat (master_node c - 1) = 3 \<and>
                 ndf merged ! nat (sl - 1) = 9)"
    by blast
qed

theorem master_and_slave_witness:
  "select_nodes [9, 3] (0, 1) = Inr (2, 1) \<and> [9, 3 :: int] ! nat (2 - 1) = 3 \<and>
   select_nodes [3, 3] (0, 1) = Inl (ValueError BadNdf) \<and>
   (\<exists>v s' merged. addAbsorbingLayer matching_kernel cube_model 1 1 ''kd-tree'' ''Rectangular''
        (19 / 20) False (Some ''PML'') = (Inr v, s') \<and>
      AssembeledMesh s' = Some merged \<and> mp s' \<noteq> [] \<and>
      (\<forall>c \<in> set (drop (length (mp cube_model)) (mp s')).
          \<exists>sl. slave_nodes c = [sl] \<and> dofs c = [1, 2, 3] \<and>
               ndf merged ! nat (master_node c - 1) = 3 \<and>
               ndf merged ! nat (sl - 1) = 9))"
proof -
  from cube_PML_run obtain s' where
    run: "addAbsorbingLayer matching_kernel cube_model 1 1 ''kd-tree'' ''Rectangular''
        (19 / 20) False (Some ''PML'') = (Inr PyNone, s')"
    and ne: "mp s' \<noteq> []"
    by auto
  have sel: "select_nodes [9, 3] (0, 1) = Inr (2, 1)"
    by (simp add: select_nodes_def)
  have "[9, 3 :: int] ! nat (2 - 1) = 3"
    using master_and_slave [where nd = "[9, 3]" and ?i0.0 = 0 and ?i1.0 = 1
        and masterNode = 2 and slaveNode = 1] sel
    by simp
  moreover have "select_nodes [3, 3] (0, 1) = Inl (ValueError BadNdf)"
    using master_and_slave [where nd = "[3, 3]" and ?i0.0 = 0 and ?i1.0 = 1]
    by simp
  moreover have "\<exists>merged. AssembeledMesh s' = Some merged \<and>
      (\<forall>c \<in> set (drop (length (mp cube_model)) (mp s')).
          \<exists>sl. slave_nodes c = [sl] \<and> dofs c = [1, 2, 3] \<and>
               ndf merged ! nat (master_node c - 1) = 3 \<and>
               ndf merged ! nat (sl - 1) = 9)"
    using master_and_slave [where K = matching_kernel and s = cube_model and s' = s'] run
    by blast
  ultimately show ?thesis
    using sel run ne by blast
qed

theorem master_and_slave_counterexample:
  "select_nodes [9, 3] (0, 1) = Inr (2, 1) \<and> [9, 3 :: int] ! nat (2 - 1) \<noteq> 9 \<and>
   (\<exists>s' merged. addAbsorbingLayer matching_kernel cube_model 1 1 ''kd-tree'' ''Rectangular''
        (19 / 20) False (Some ''PML'') = (Inr PyNone, s') \<and>
      AssembeledMesh s' = Some merged \<and>
      mp s' ! 0 = \<lparr>master_node = 1, slave_nodes = [9], dofs = [1, 2, 3]\<rparr> \<and>
      ndf merged ! nat (1 - 1) = 3 \<and> ndf merged ! nat (9 - 1) = 9)"
proof -
  have "select_nodes [9, 3] (0, 1) = Inr (2, 1)" "[9, 3 :: int] ! nat (2 - 1) \<noteq> 9"
    by (simp_all add: select_nodes_def)
  moreover from cube_PML_run obtain s' merged where
    "addAbsorbingLayer matching_kernel cube_model 1 1 ''kd-tree'' ''Rectangular''
        (19 / 20) False (Some ''PML'') = (Inr PyNone, s')"
    "AssembeledMesh s' = Some merged"
    "mp s' ! 0 = \<lparr>master_node = 1, slave_nodes = [9], dofs = [1, 2, 3]\<rparr>"
    "ndf merged ! nat (1 - 1) = 3" "ndf merged ! nat (9 - 1) = 9"
    by (auto simp add: constraint_of_def)
  ultimately show ?thesis by blast
qed

subsection \<open>Partition ids of the shell\<close>

text \<open>
  Claim C5. A call with \<open>numPartitions = 1\<close> that raises no error hands a shell to the
  merge in which every cell has \<^verbatim>\<open>Core\<close> equal to the largest
  \<^verbatim>\<open>Core\<close> of the interior mesh plus one. A call with \<open>numPartitions = 0\<close> on
  an interior mesh whose largest \<^verbatim>\<open>Core\<close> is positive always raises, with the
  state untouched and whatever the geometry kernel is, so before any shell is built;
  the error is a \<^verbatim>\<open>ValueError\<close> unless one of the unimplemented features
  (metis, Cylindrical, ASDA) is selected, and for an otherwise valid PML or Rayleigh
  call it is the partition mismatch. A call with \<open>numPartitions = 0\<close> that raises no
  error was made on an unpartitioned mesh and hands a shell to the merge in which
  every cell has \<^verbatim>\<open>Core = 0\<close>.
\<close>

theorem shell_partition_ids:
  "(addAbsorbingLayer K s numLayers 1 partitionAlgo geometry rd md kw = (Inr v, s') \<longrightarrow>
      (\<exists>mesh ty A s1.
         AssembeledMesh s = Some mesh \<and> kw = Some ty \<and>
         make_absorbing K s mesh numLayers 1 rd md ty = (Inr A, s1) \<and>
         AssembeledMesh s' = Some ((pv_merge K (zero_AbsorbingRegion mesh) A (ty \<noteq> ''PML''))
                                    \<lparr>active_scalars := Some ''AbsorbingRegion''\<rparr>) \<and>
         (\<forall>c \<in> set (abs_cells A). a_Core c = Max (set (map Core (cells mesh))) + 1))) \<and>
   (AssembeledMesh s = Some interior \<and> cells interior \<noteq> [] \<and>
      0 < Max (set (map Core (cells interior))) \<longrightarrow>
      (\<exists>e. addAbsorbingLayer K s numLayers 0 partitionAlgo geometry rd md kw = (Inl e, s)) \<and>
      (partitionAlgo \<noteq> ''metis'' \<and> geometry \<noteq> ''Cylindrical'' \<and> kw \<noteq> Some ''ASDA'' \<longrightarrow>
         (\<exists>r. addAbsorbingLayer K s numLayers 0 partitionAlgo geometry rd md kw
                 = (Inl (ValueError r), s))) \<and>
      (1 \<le> numLayers \<and> partitionAlgo = ''kd-tree'' \<and> geometry = ''Rectangular'' \<and>
         (kw = Some ''PML'' \<or> kw = Some ''Rayleigh'') \<longrightarrow>
         addAbsorbingLayer K s numLayers 0 partitionAlgo geometry rd md kw
           = (Inl (ValueError PartitionsOnPartitionedMesh), s))) \<and>
   (addAbsorbingLayer K s numLayers 0 partitionAlgo geometry rd md kw = (Inr v, s') \<longrightarrow>
      (\<exists>mesh ty A s1.
         AssembeledMesh s = Some mesh \<and> kw = Some ty \<and>
         Max (set (map Core (cells mesh))) \<le> 0 \<and>
         make_absorbing K s mesh numLayers 0 rd md ty = (Inr A, s1) \<and>
         AssembeledMesh s' = Some ((pv_merge K (zero_AbsorbingRegion mesh) A (ty \<noteq> ''PML''))
                                    \<lparr>active_scalars := Some ''AbsorbingRegion''\<rparr>) \<and>
         (\<forall>c \<in> set (abs_cells A). a_Core c = 0)))"
proof (intro conjI impI)
  assume run: "addAbsorbingLayer K s numLayers 1 partitionAlgo geometry rd md kw = (Inr v, s')"
  from run_Inr [OF run] obtain mesh ty A s1 where
    *: "AssembeledMesh s = Some mesh" "kw = Some ty" "cells mesh \<noteq> []"
      "make_absorbing K s mesh numLayers 1 rd md ty = (Inr A, s1)"
      "AssembeledMesh s' = Some ((pv_merge K (zero_AbsorbingRegion mesh) A (ty \<noteq> ''PML''))
                                 \<lparr>active_scalars := Some ''AbsorbingRegion''\<rparr>)"
    by blast
  from *(3) have "amax (map Core (cells mesh)) = Max (set (map Core (cells mesh)))"
    by (simp add: amax_Max)
  with make_absorbing_Core [OF *(4)]
  have "\<forall>c \<in> set (abs_cells A). a_Core c = Max (set (map Core (cells mesh))) + 1"
    by simp
  with * show "\<exists>mesh ty A s1.
         AssembeledMesh s = Some mesh \<and> kw = Some ty \<and>
         make_absorbing K s mesh numLayers 1 rd md ty = (Inr A, s1) \<and>
         AssembeledMesh s' = Some ((pv_merge K (zero_AbsorbingRegion mesh) A (ty \<noteq> ''PML''))
                                    \<lparr>active_scalars := Some ''AbsorbingRegion''\<rparr>) \<and>
         (\<forall>c \<in> set (abs_cells A). a_Core c = Max (set (map Core (cells mesh))) + 1)"
    by blast
next
  assume run: "addAbsorbingLayer K s numLayers 0 partitionAlgo geometry rd md kw = (Inr v, s')"
  from run_Inr [OF run] obtain mesh ty A s1 where
    *: "AssembeledMesh s = Some mesh" "kw = Some ty" "cells mesh \<noteq> []"
      "\<not> 0 < amax (map Core (cells mesh))"
      "make_absorbing K s mesh numLayers 0 rd md ty = (Inr A, s1)"
      "AssembeledMesh s' = Some ((pv_merge K (zero_AbsorbingRegion mesh) A (ty \<noteq> ''PML''))
                                 \<lparr>active_scalars := Some ''AbsorbingRegion''\<rparr>)"
    by auto
  from *(3) have "amax (map Core (cells mesh)) = Max (set (map Core (cells mesh)))"
    by (simp add: amax_Max)
  with *(4) have "Max (set (map Core (cells mesh))) \<le> 0"
    by linarith
  moreover from make_absorbing_Core [OF *(5)]
  have "\<forall>c \<in> set (abs_cells A). a_Core c = 0"
    by simp
  ultimately show "\<exists>mesh ty A s1.
         AssembeledMesh s = Some mesh \<and> kw = Some ty \<and>
         Max (set (map Core (cells mesh))) \<le> 0 \<and>
         make_absorbing K s mesh numLayers 0 rd md ty = (Inr A, s1) \<and>
         AssembeledMesh s' = Some ((pv_merge K (zero_AbsorbingRegion mesh) A (ty \<noteq> ''PML''))
                                    \<lparr>active_scalars := Some ''AbsorbingRegion''\<rparr>) \<and>
         (\<forall>c \<in> set (abs_cells A). a_Core c = 0)"
    using * by blast
next
  assume a: "AssembeledMesh s = Some interior \<and> cells interior \<noteq> [] \<and>
      0 < Max (set (map Core (cells interior)))"
  then have pos: "0 < amax (map Core (cells interior))"
    by (simp add: amax_Max)
  show "\<exists>e. addAbsorbingLayer K s numLayers 0 partitionAlgo geometry rd md kw = (Inl e, s)"
    using a pos
    by (auto simp add: addAbsorbingLayer_def addRectangularAbsorbingLayer_def
        split: option.splits)
next
  assume a: "AssembeledMesh s = Some interior \<and> cells interior \<noteq> [] \<and>
      0 < Max (set (map Core (cells interior)))"
    and b: "partitionAlgo \<noteq> ''metis'' \<and> geometry \<noteq> ''Cylindrical'' \<and> kw \<noteq> Some ''ASDA''"
  from a have pos: "0 < amax (map Core (cells interior))"
    by (simp add: amax_Max)
  show "\<exists>r. addAbsorbingLayer K s numLayers 0 partitionAlgo geometry rd md kw
                 = (Inl (ValueError r), s)"
    using a b pos
    by (auto simp add: addAbsorbingLayer_def addRectangularAbsorbingLayer_def
        split: option.splits)
next
  assume a: "AssembeledMesh s = Some interior \<and> cells interior \<noteq> [] \<and>
      0 < Max (set (map Core (cells interior)))"
    and b: "1 \<le> numLayers \<and> partitionAlgo = ''kd-tree'' \<and> geometry = ''Rectangular'' \<and>
         (kw = Some ''PML'' \<or> kw = Some ''Rayleigh'')"
  from a have pos: "0 < amax (map Core (cells interior))"
    by (simp add: amax_Max)
  show "addAbsorbingLayer K s numLayers 0 partitionAlgo geometry rd md kw
           = (Inl (ValueError PartitionsOnPartitionedMesh), s)"
    using a b pos
    by (auto simp add: addAbsorbingLayer_def addRectangularAbsorbingLayer_def)
qed

theorem shell_partition_ids_witness:
  "(\<exists>v s' A s1.
      addAbsorbingLayer matching_kernel cube_model 1 1 ''kd-tree'' ''Rectangular'' (19 / 20)
        False (Some ''PML'') = (Inr v, s') \<and>
      make_absorbing matching_kernel cube_model cube_mesh 1 1 (19 / 20) False ''PML''
        = (Inr A, s1) \<and>
      abs_cells A \<noteq> [] \<and> (\<forall>c \<in> set (abs_cells A). a_Core c = 1)) \<and>
   AssembeledMesh partitioned_model
     = Some (cube_mesh\<lparr>cells := map (\<lambda>c. c\<lparr>Core := 2\<rparr>) (cells cube_mesh)\<rparr>) \<and>
   addAbsorbingLayer test_kernel partitioned_model 1 0 ''kd-tree'' ''Rectangular'' (19 / 20)
     False (Some ''PML'') = (Inl (ValueError PartitionsOnPartitionedMesh), partitioned_model) \<and>
   (\<exists>v s' A s1.
      addAbsorbingLayer test_kernel cube_model 1 0 ''kd-tree'' ''Rectangular'' (19 / 20)
        True (Some ''Rayleigh'') = (Inr v, s') \<and>
      make_absorbing test_kernel cube_model cube_mesh 1 0 (19 / 20) True ''Rayleigh''
        = (Inr A, s1) \<and>
      (\<forall>c \<in> set (abs_cells A). a_Core c = 0))"
proof -
  have am: "AssembeledMesh cube_model = Some cube_mesh"
    by (simp add: cube_model_def)
  have mx: "Max (set (map Core (cells cube_mesh))) = 0"
    by (simp add: cube_mesh_def)
  from cube_PML_run obtain s' where
    run: "addAbsorbingLayer matching_kernel cube_model 1 1 ''kd-tree'' ''Rectangular''
        (19 / 20) False (Some ''PML'') = (Inr PyNone, s')"
    by auto
  note shell_partition_ids [where K = matching_kernel and s = cube_model and s' = s'
      and v = PyNone and numLayers = 1 and partitionAlgo = "''kd-tree''"
      and geometry = "''Rectangular''" and rd = "19 / 20" and md = False
      and kw = "Some ''PML''", THEN conjunct1, rule_format, OF run]
  then obtain A s1 where
    ma: "make_absorbing matching_kernel cube_model cube_mesh 1 1 (19 / 20) False ''PML''
        = (Inr A, s1)"
    and co: "\<forall>c \<in> set (abs_cells A). a_Core c = Max (set (map Core (cells cube_mesh))) + 1"
    using am by fastforce
  from ma cube_PML_shell have "A = cube_shell" by simp
  then have ne: "abs_cells A \<noteq> []" by (simp add: cube_shell_def)
  have first: "\<exists>v s' A s1.
      addAbsorbingLayer matching_kernel cube_model 1 1 ''kd-tree'' ''Rectangular'' (19 / 20)
        False (Some ''PML'') = (Inr v, s') \<and>
      make_absorbing matching_kernel cube_model cube_mesh 1 1 (19 / 20) False ''PML''
        = (Inr A, s1) \<and>
      abs_cells A \<noteq> [] \<and> (\<forall>c \<in> set (abs_cells A). a_Core c = 1)"
    using run ma ne co mx by auto
  have pm: "AssembeledMesh partitioned_model
     = Some (cube_mesh\<lparr>cells := map (\<lambda>c. c\<lparr>Core := 2\<rparr>) (cells cube_mesh)\<rparr>)"
    by (simp add: partitioned_model_def)
  have second: "addAbsorbingLayer test_kernel partitioned_model 1 0 ''kd-tree'' ''Rectangular''
     (19 / 20) False (Some ''PML'') = (Inl (ValueError PartitionsOnPartitionedMesh), partitioned_model)"
    using shell_partition_ids [where K = test_kernel and s = partitioned_model
      and interior = "cube_mesh\<lparr>cells := map (\<lambda>c. c\<lparr>Core := 2\<rparr>) (cells cube_mesh)\<rparr>"
      and numLayers = 1 and partitionAlgo = "''kd-tree''"
      and geometry = "''Rectangular''" and rd = "19 / 20" and md = False
      and kw = "Some ''PML''", THEN conjunct2, THEN conjunct1] pm
    by (simp add: cube_mesh_def)
  from cube_Rayleigh_run obtain v0 s0 where
    run0: "addAbsorbingLayer test_kernel cube_model 1 0 ''kd-tree'' ''Rectangular'' (19 / 20)
        True (Some ''Rayleigh'') = (Inr v0, s0)"
    by (metis prod.collapse)
  note shell_partition_ids [where K = test_kernel and s = cube_model and s' = s0
      and v = v0 and numLayers = 1 and partitionAlgo = "''kd-tree''"
      and geometry = "''Rectangular''" and rd = "19 / 20" and md = True
      and kw = "Some ''Rayleigh''", THEN conjunct2, THEN conjunct2, rule_format, OF run0]
  then have third: "\<exists>v s' A s1.
      addAbsorbingLayer test_kernel cube_model 1 0 ''kd-tree'' ''Rectangular'' (19 / 20)
        True (Some ''Rayleigh'') = (Inr v, s') \<and>
      make_absorbing test_kernel cube_model cube_mesh 1 0 (19 / 20) True ''Rayleigh''
        = (Inr A, s1) \<and>
      (\<forall>c \<in> set (abs_cells A). a_Core c = 0)"
    using am run0 by fastforce
  from first pm second third show ?thesis
    by blast
qed

subsection \<open>The lattice example, evaluated\<close>

lemma lattice_arange_1: "lattice_arange (- 2) (2000001 / 1000000) 2 = [- 2, 0, 2]"
  by (simp add: lattice_arange_def upt_conv_Cons)

lemma lattice_arange_2: "lattice_arange 1 (3000001 / 1000000) 1 = [1, 2, 3]"
  by (simp add: lattice_arange_def upt_conv_Cons)

lemma lattice_arange_3: "lattice_arange 2 (6000001 / 1000000) 2 = [2, 4, 6]"
  by (simp add: lattice_arange_def upt_conv_Cons)

lemma lattice_arange_4: "lattice_arange (- 1) (1000001 / 1000000) 1 = [- 1, 0, 1]"
  by (simp add: lattice_arange_def upt_conv_Cons)

lemma lattice_points: "points lattice_mesh =
  [(0, 0, 0), (2, 0, 0), (4, 0, 0), (0, 1, 0), (2, 1, 0), (4, 1, 0),
  (0, 2, 0), (2, 2, 0), (4, 2, 0), (0, 0, 1), (2, 0, 1), (4, 0, 1),
  (0, 1, 1), (2, 1, 1), (4, 1, 1), (0, 2, 1), (2, 2, 1), (4, 2, 1)]"
  by (simp add: lattice_mesh_def lattice_grid_def)

lemma lattice_bounds: "bounds_of (points lattice_mesh) = (0, 4, 0, 2, 0, 1)"
  by (simp add: lattice_points bounds_of_def)

lemma lattice_clip:
  "pv_clip_surface (lattice_kernel ver) lattice_mesh (shrink_bounds (0, 4, 0, 2, 0, 1)) = lattice_mesh"
  by (simp add: lattice_kernel_def shrink_bounds_def eps_def lattice_mesh_def lattice_grid_def
      consecutive_def outside_def)

lemma lattice_centres:
  "map (\<lambda>c. centroid (cell_points c)) (cells lattice_mesh) =
     [(1, 1 / 2, 1 / 2), (3, 1 / 2, 1 / 2), (1, 3 / 2, 1 / 2), (3, 3 / 2, 1 / 2)]"
  by (simp add: lattice_mesh_def lattice_grid_def consecutive_def centroid_def)

lemma lattice_regions:
  "regionize [(1, 1 / 2, 1 / 2), (3, 1 / 2, 1 / 2), (1, 3 / 2, 1 / 2), (3, 3 / 2, 1 / 2)]
     = [14, 16, 15, 17]"
  by (simp add: regionize_def masked_assign_def mask_and_def bounds_of_def eps_def)

lemma lattice_extrusion:
  "extrusion_loop (lattice_kernel ver) 1 (zip (cells lattice_mesh) [14, 16, 15, 17]) [] None =
     Inr ([(lattice_grid [- 2, 0, 2] [- 1, 0, 1] [- 1, 0, 1], 1, 14, 1, 1),
           (lattice_grid [2, 4, 6] [- 1, 0, 1] [- 1, 0, 1], 1, 16, 1, 1),
           (lattice_grid [- 2, 0, 2] [1, 2, 3] [- 1, 0, 1], 1, 15, 1, 1),
           (lattice_grid [2, 4, 6] [1, 2, 3] [- 1, 0, 1], 1, 17, 1, 1)], Some 2)"
proof -
  have cs: "cells lattice_mesh =
    map (\<lambda>ps. \<lparr>cell_points = ps, MaterialTag = 1, ElementTag = 1, Region = 1,
                 Core = 0, AbsorbingRegion = 0\<rparr>)
   [[(0, 0, 0), (2, 0, 0), (2, 1, 0), (0, 1, 0), (0, 0, 1), (2, 0, 1),
   (2, 1, 1), (0, 1, 1)],
  [(2, 0, 0), (4, 0, 0), (4, 1, 0), (2, 1, 0), (2, 0, 1), (4, 0, 1),
   (4, 1, 1), (2, 1, 1)],
  [(0, 1, 0), (2, 1, 0), (2, 2, 0), (0, 2, 0), (0, 1, 1), (2, 1, 1),
   (2, 2, 1), (0, 2, 1)],
  [(2, 1, 0), (4, 1, 0), (4, 2, 0), (2, 2, 0), (2, 1, 1), (4, 1, 1),
   (4, 2, 1), (2, 2, 1)]]"
    by (simp add: lattice_mesh_def lattice_grid_def consecutive_def)
  have k: "np_arange (lattice_kernel ver) = lattice_arange"
    "pv_StructuredGrid (lattice_kernel ver) = lattice_grid"
    by (simp_all add: lattice_kernel_def)
  show ?thesis
    by (simp add: cs extrude_cell_def bounds_of_def py_index_def normals_def Let_def k
        lattice_arange_1 lattice_arange_2 lattice_arange_3 lattice_arange_4)
qed

lemma lattice_build_shell:
  "\<exists>cs. build_shell (lattice_kernel ver) lattice_mesh (shrink_bounds (0, 4, 0, 2, 0, 1)) 1 9 =
     Inr (\<lparr>abs_points = lattice_shell_points,
           abs_ndf = replicate (length lattice_shell_points) 9, abs_cells = cs\<rparr>,
          Some 2, [(1, 1 / 2, 1 / 2), (3, 1 / 2, 1 / 2), (1, 3 / 2, 1 / 2), (3, 3 / 2, 1 / 2)]) \<and>
     length cs = 28 \<and> list_all (\<lambda>c. a_ElementTag c = 1) cs"
proof -
  have k: "pv_cell_center (lattice_kernel ver) = centroid"
    "pv_combine (lattice_kernel ver) = (\<lambda>gs. \<lparr>grid_points = remdups (concat (map grid_points gs)),
                          grid_cells = concat (map grid_cells gs)\<rparr>)"
    "pv_find_cells_within_bounds (lattice_kernel ver) = (\<lambda>A b.
         filter (\<lambda>i. boxes_meet (bounds_of (a_points (abs_cells A ! i))) b)
           [0..<length (abs_cells A)])"
    "pv_extract_cells (lattice_kernel ver) =
       (\<lambda>A ind. concat (map a_points (extract_cells ind (abs_cells A))))"
    "pv_clean (lattice_kernel ver) = (\<lambda>A. remdups (abs_points A))"
    by (simp_all add: lattice_kernel_def)
  show ?thesis
    by (simp add: build_shell_def Let_def lattice_clip lattice_centres lattice_regions
        lattice_extrusion k lattice_grid_def consecutive_def broadcast_tags_def
        shell_cell_def extract_cells_def bounds_of_def boxes_meet_def upt_conv_Cons
        lattice_shell_points_def)
qed


lemma remdups_single: "xs \<noteq> [] \<Longrightarrow> \<forall>x \<in> set xs. x = t \<Longrightarrow> remdups xs = [t]"
proof (induction xs)
  case Nil
  then show ?case by simp
next
  case (Cons x xs)
  show ?case
  proof (cases "xs = []")
    case True
    with Cons.prems show ?thesis by simp
  next
    case False
    with Cons have r: "remdups xs = [t]" by simp
    from False Cons.prems have "x \<in> set xs" by (cases xs) auto
    with r show ?thesis by simp
  qed
qed

lemma unique_single: "xs \<noteq> [] \<Longrightarrow> \<forall>x \<in> set xs. x = t \<Longrightarrow> unique xs = [t]"
  by (simp add: unique_def remdups_single)

lemma rewrite_single:
  "\<forall>c \<in> set cs. a_ElementTag c = t \<Longrightarrow>
   map2 (\<lambda>c t. c\<lparr>a_ElementTag := t\<rparr>) cs
     (masked_assign (map (\<lambda>v. v = t) (map a_ElementTag cs)) w (map a_ElementTag cs))
   = map (\<lambda>c. c\<lparr>a_ElementTag := w\<rparr>) cs"
  by (induction cs) (simp_all add: masked_assign_def)

lemma retag_single:
  assumes cs: "abs_cells A \<noteq> []" and all: "\<forall>c \<in> set (abs_cells A). a_ElementTag c = t"
    and src: "elements reg (uint t) = Some src"
    and ty: "element_type src \<in> {''stdBrick'', ''bbarBrick'', ''SSPbrick''}"
    and mat: "material_name (element_material src) = ''ElasticIsotropic''"
      "material_type (element_material src) = ''nDMaterial''"
  shows "retag_PML K reg A b numLayers (Some dxv) ndof =
     (case store_uint16 (np_version K) (next_tag reg) of
        Inl e \<Rightarrow> Inl e
      | Inr w \<Rightarrow> Inr (A\<lparr>abs_cells := map (\<lambda>c. c\<lparr>a_ElementTag := w\<rparr>) (abs_cells A)\<rparr>),
      snd (create_element reg ''PML3D'' ndof (element_material src)
             (pml_element_params numLayers dxv b)))"
proof -
  from cs all have u: "unique (map a_ElementTag (abs_cells A)) = [t]"
    by (intro unique_single) auto
  show ?thesis
    using src ty mat rewrite_single [OF all]
    by (simp add: retag_PML_def u get_element_def create_element_def Let_def
        split: sum.splits)
qed

lemma lattice_interface_points:
  "interface_points lattice_mesh =
     [(0, 0, 0), (2, 0, 0), (4, 0, 0), (0, 1, 0), (2, 1, 0), (4, 1, 0),
      (0, 2, 0), (2, 2, 0), (4, 2, 0), (0, 0, 1), (2, 0, 1), (4, 0, 1),
      (0, 1, 1), (4, 1, 1), (0, 2, 1), (2, 2, 1), (4, 2, 1)]"
  by (simp add: interface_points_def lattice_points bounds_of_def eps_def)

lemma lattice_query_distances:
  "map (\<lambda>p. case exact_query (points lattice_mesh @ lattice_shell_points) p of
               ((d0, d1), ix) \<Rightarrow> [\<bar>d0\<bar>, \<bar>d1\<bar>]) (interface_points lattice_mesh) =
     [[0, 0], [0, 0], [0, 0], [0, 0], [0, 0], [0, 0], [0, 0], [0, 0], [0, 0],
      [0, 0], [0, 0], [0, 0], [0, 0], [0, 0], [0, 0], [0, 0], [0, 0]]"
  by (simp add: lattice_interface_points lattice_points lattice_shell_points_def
      exact_query_def)

lemma lattice_query_indices:
  "map (\<lambda>p. snd (exact_query (points lattice_mesh @ lattice_shell_points) p))
     (interface_points lattice_mesh) =
     [(0, 27), (1, 37), (2, 44), (3, 55), (4, 67), (5, 76), (6, 62), (7, 80), (8, 84),
      (9, 29), (10, 39), (11, 46), (12, 57), (14, 78), (15, 64), (16, 82), (17, 88)]"
  by (simp add: lattice_interface_points lattice_points lattice_shell_points_def
      exact_query_def)

lemma lattice_make_absorbing:
  assumes src: "elements (element s) 1 = Some src"
    and ty: "element_type src \<in> {''stdBrick'', ''bbarBrick'', ''SSPbrick''}"
    and mat: "material_name (element_material src) = ''ElasticIsotropic''"
      "material_type (element_material src) = ''nDMaterial''"
    and w: "store_uint16 ver (next_tag (element s)) = Inr w"
    and w2: "store_uint16 ver (region_next_tag (region s)) = Inr w2"
  shows "\<exists>cs s1. make_absorbing (lattice_kernel ver) s lattice_mesh 1 1 rd False ''PML'' =
       (Inr \<lparr>abs_points = lattice_shell_points,
             abs_ndf = replicate (length lattice_shell_points) 9, abs_cells = cs\<rparr>, s1) \<and>
     length cs = 28 \<and>
     list_all (\<lambda>c. a_ElementTag c = w \<and> a_Core c = 1 \<and> a_Region c = w2) cs \<and>
     element s1 = snd (create_element (element s) ''PML3D'' 9 (element_material src)
                         (pml_element_params 1 2 (0, 4, 0, 2, 0, 1)))"
proof -
  from lattice_build_shell [of ver] obtain cs where
    bs: "build_shell (lattice_kernel ver) lattice_mesh (shrink_bounds (0, 4, 0, 2, 0, 1)) 1 9 =
     Inr (\<lparr>abs_points = lattice_shell_points,
           abs_ndf = replicate (length lattice_shell_points) 9, abs_cells = cs\<rparr>,
          Some 2, [(1, 1 / 2, 1 / 2), (3, 1 / 2, 1 / 2), (1, 3 / 2, 1 / 2), (3, 3 / 2, 1 / 2)])"
    and len: "length cs = 28" and tags: "list_all (\<lambda>c. a_ElementTag c = 1) cs"
    by blast
  define A0 where "A0 = \<lparr>abs_points = lattice_shell_points,
           abs_ndf = replicate (length lattice_shell_points) 9, abs_cells = cs\<rparr>"
  from len have ne: "abs_cells A0 \<noteq> []" by (auto simp add: A0_def)
  from tags have all: "\<forall>c \<in> set (abs_cells A0). a_ElementTag c = 1"
    by (simp add: A0_def list_all_iff)
  from src have src1: "elements (element s) (uint (1 :: 16 word)) = Some src" by simp
  have nv: "np_version (lattice_kernel ver) = ver"
    by (simp add: lattice_kernel_def)
  note rt = retag_single [OF ne all src1 ty mat, of "lattice_kernel ver" "(0, 4, 0, 2, 0, 1)" 1 2 9]
  have core: "amax (map Core (cells lattice_mesh)) = 0"
    by (simp add: lattice_mesh_def lattice_grid_def consecutive_def)
  show ?thesis
    using w w2 len
    by (simp add: make_absorbing_def Let_def lattice_bounds bs rt [unfolded A0_def]
        nv core partition_shell_def add_damping_region_def create_damping_def
        create_region_def list_all_iff)
qed

lemma lattice_make_absorbing_overflow:
  assumes src: "elements (element s) 1 = Some src"
    and ty: "element_type src \<in> {''stdBrick'', ''bbarBrick'', ''SSPbrick''}"
    and mat: "material_name (element_material src) = ''ElasticIsotropic''"
      "material_type (element_material src) = ''nDMaterial''"
    and w: "store_uint16 ver (next_tag (element s)) = Inl e"
  shows "make_absorbing (lattice_kernel ver) s lattice_mesh 1 1 rd md ''PML'' =
       (Inl e, s\<lparr>element := snd (create_element (element s) ''PML3D'' 9 (element_material src)
                         (pml_element_params 1 2 (0, 4, 0, 2, 0, 1)))\<rparr>)"
proof -
  from lattice_build_shell [of ver] obtain cs where
    bs: "build_shell (lattice_kernel ver) lattice_mesh (shrink_bounds (0, 4, 0, 2, 0, 1)) 1 9 =
     Inr (\<lparr>abs_points = lattice_shell_points,
           abs_ndf = replicate (length lattice_shell_points) 9, abs_cells = cs\<rparr>,
          Some 2, [(1, 1 / 2, 1 / 2), (3, 1 / 2, 1 / 2), (1, 3 / 2, 1 / 2), (3, 3 / 2, 1 / 2)])"
    and len: "length cs = 28" and tags: "list_all (\<lambda>c. a_ElementTag c = 1) cs"
    by blast
  define A0 where "A0 = \<lparr>abs_points = lattice_shell_points,
           abs_ndf = replicate (length lattice_shell_points) 9, abs_cells = cs\<rparr>"
  from len have ne: "abs_cells A0 \<noteq> []" by (auto simp add: A0_def)
  from tags have all: "\<forall>c \<in> set (abs_cells A0). a_ElementTag c = 1"
    by (simp add: A0_def list_all_iff)
  from src have src1: "elements (element s) (uint (1 :: 16 word)) = Some src" by simp
  have nv: "np_version (lattice_kernel ver) = ver"
    by (simp add: lattice_kernel_def)
  note rt = retag_single [OF ne all src1 ty mat, of "lattice_kernel ver" "(0, 4, 0, 2, 0, 1)" 1 2 9]
  show ?thesis
    using w
    by (simp add: make_absorbing_def Let_def lattice_bounds bs rt [unfolded A0_def] nv)
qed

lemma lattice_shell_length: "length lattice_shell_points = 74"
  by (simp add: lattice_shell_points_def)

lemma lattice_stitch:
  assumes p: "abs_points A = lattice_shell_points"
    and n: "abs_ndf A = replicate (length lattice_shell_points) 9"
  shows "stitch (lattice_kernel ver)
     ((pv_merge (lattice_kernel ver) (zero_AbsorbingRegion lattice_mesh) A False)
        \<lparr>active_scalars := Some ''AbsorbingRegion''\<rparr>)
     (zero_AbsorbingRegion lattice_mesh) cs =
   (Inr (), cs @ map constraint_of lattice_pairs)"
proof -
  define merged where "merged =
     (pv_merge (lattice_kernel ver) (zero_AbsorbingRegion lattice_mesh) A False)
        \<lparr>active_scalars := Some ''AbsorbingRegion''\<rparr>"
  have k: "kd_query (lattice_kernel ver) = exact_query"
    by (simp add: lattice_kernel_def)
  have mpts: "points merged = points lattice_mesh @ lattice_shell_points"
    by (simp add: merged_def lattice_kernel_def zero_AbsorbingRegion_def p)
  have mndf: "ndf merged = replicate 18 3 @ replicate 74 9"
    by (simp add: merged_def lattice_kernel_def zero_AbsorbingRegion_def n lattice_mesh_def
        lattice_shell_length)
  have "stitch (lattice_kernel ver) merged (zero_AbsorbingRegion lattice_mesh) cs =
      (Inr (), cs @ map constraint_of lattice_pairs)"
    by (simp add: stitch_def query_distances_def query_indices_def Let_def k mpts mndf
        lattice_query_distances lattice_query_indices
        select_nodes_def create_equal_dof_def constraint_of_def lattice_pairs_def nth_append)
  then show ?thesis
    by (simp only: merged_def)
qed

lemma lattice_validation:
  "cells lattice_mesh \<noteq> []" "amax (map Core (cells lattice_mesh)) = 0"
  by (simp_all add: lattice_mesh_def lattice_grid_def consecutive_def)

lemma lattice_PML_run:
  assumes am: "AssembeledMesh s = Some lattice_mesh"
    and src: "elements (element s) 1 = Some src"
    and ty: "element_type src \<in> {''stdBrick'', ''bbarBrick'', ''SSPbrick''}"
    and mat: "material_name (element_material src) = ''ElasticIsotropic''"
      "material_type (element_material src) = ''nDMaterial''"
    and w: "store_uint16 ver (next_tag (element s)) = Inr w"
    and w2: "store_uint16 ver (region_next_tag (region s)) = Inr w2"
  shows "\<exists>cs s' merged.
     addAbsorbingLayer (lattice_kernel ver) s 1 1 ''kd-tree'' ''Rectangular'' rd False
       (Some ''PML'') = (Inr PyNone, s') \<and>
     make_absorbing (lattice_kernel ver) s lattice_mesh 1 1 rd False ''PML'' =
       (Inr \<lparr>abs_points = lattice_shell_points,
             abs_ndf = replicate (length lattice_shell_points) 9, abs_cells = cs\<rparr>,
        s'\<lparr>AssembeledMesh := Some lattice_mesh, mp := mp s\<rparr>) \<and>
     length cs = 28 \<and>
     list_all (\<lambda>c. a_ElementTag c = w \<and> a_Core c = 1 \<and> a_Region c = w2) cs \<and>
     mp s' = mp s @ map constraint_of lattice_pairs \<and>
     AssembeledMesh s' = Some merged \<and>
     points merged = points lattice_mesh @ lattice_shell_points \<and>
     map ElementTag (cells merged) = [1, 1, 1, 1] @ replicate 28 (uint w)"
proof -
  from lattice_make_absorbing [OF src ty mat w w2, of rd] obtain cs s1 where
    ma: "make_absorbing (lattice_kernel ver) s lattice_mesh 1 1 rd False ''PML'' =
       (Inr \<lparr>abs_points = lattice_shell_points,
             abs_ndf = replicate (length lattice_shell_points) 9, abs_cells = cs\<rparr>, s1)"
    and len: "length cs = 28"
    and all: "list_all (\<lambda>c. a_ElementTag c = w \<and> a_Core c = 1 \<and> a_Region c = w2) cs"
    by blast
  define A where "A = \<lparr>abs_points = lattice_shell_points,
             abs_ndf = replicate (length lattice_shell_points) 9, abs_cells = cs\<rparr>"
  have p: "abs_points A = lattice_shell_points"
    and n: "abs_ndf A = replicate (length lattice_shell_points) 9"
    by (simp_all add: A_def)
  from make_absorbing_keeps [OF ma] am have s1: "mp s1 = mp s" "AssembeledMesh s1 = Some lattice_mesh"
    by simp_all
  define merged where "merged =
     (pv_merge (lattice_kernel ver) (zero_AbsorbingRegion lattice_mesh) A False)
        \<lparr>active_scalars := Some ''AbsorbingRegion''\<rparr>"
  have run: "addAbsorbingLayer (lattice_kernel ver) s 1 1 ''kd-tree'' ''Rectangular'' rd False
       (Some ''PML'') =
       (Inr PyNone, s1\<lparr>AssembeledMesh := Some merged, mp := mp s @ map constraint_of lattice_pairs\<rparr>)"
    by (simp add: addAbsorbingLayer_def addRectangularAbsorbingLayer_def am lattice_validation
        ma [unfolded A_def [symmetric]] merge_and_stitch_def Let_def
        lattice_stitch [OF p n] merged_def s1)
  have mpts: "points merged = points lattice_mesh @ lattice_shell_points"
    by (simp add: merged_def lattice_kernel_def zero_AbsorbingRegion_def p)
  from all have "map (\<lambda>x. ElementTag (as_icell x)) cs = replicate (length cs) (uint w)"
    by (induction cs) (simp_all add: as_icell_def)
  with len have tg: "map (\<lambda>x. ElementTag (as_icell x)) cs = replicate 28 (uint w)"
    by simp
  have mtags: "map ElementTag (cells merged) = [1, 1, 1, 1] @ replicate 28 (uint w)"
    using tg
    by (simp add: merged_def lattice_kernel_def zero_AbsorbingRegion_def A_def lattice_mesh_def
        lattice_grid_def consecutive_def comp_def)
  have restore: "s1\<lparr>AssembeledMesh := Some merged, mp := mp s @ map constraint_of lattice_pairs\<rparr>
      \<lparr>AssembeledMesh := Some lattice_mesh, mp := mp s\<rparr> = s1"
    using s1 by simp
  show ?thesis
    using run ma len all mpts mtags restore
    by (intro exI [of _ cs]
        exI [of _ "s1\<lparr>AssembeledMesh := Some merged,
                      mp := mp s @ map constraint_of lattice_pairs\<rparr>"]
        exI [of _ merged]) simp
qed

lemma lattice_arange_5: "lattice_arange 0 (2000001 / 1000000) 1 = [0, 1, 2]"
  by (simp add: lattice_arange_def upt_conv_Cons)

lemma cube_bounds: "bounds_of (points cube_mesh) = (0, 1, 0, 1, 0, 1)"
  by (simp add: cube_mesh_def cube_points_def bounds_of_def)

lemma cube_lattice_build_shell:
  "\<exists>cs. build_shell (lattice_kernel ver) cube_mesh (shrink_bounds (0, 1, 0, 1, 0, 1)) 1 9 =
     Inr (\<lparr>abs_points = cube_shell_points,
           abs_ndf = replicate (length cube_shell_points) 9, abs_cells = cs\<rparr>,
          Some 1, [(1 / 2, 1 / 2, 1 / 2)]) \<and>
     cs \<noteq> [] \<and> list_all (\<lambda>c. a_ElementTag c = 1) cs"
proof -
  have k: "pv_cell_center (lattice_kernel ver) = centroid"
    "pv_combine (lattice_kernel ver) = (\<lambda>gs. \<lparr>grid_points = remdups (concat (map grid_points gs)),
                          grid_cells = concat (map grid_cells gs)\<rparr>)"
    "pv_find_cells_within_bounds (lattice_kernel ver) = (\<lambda>A b.
         filter (\<lambda>i. boxes_meet (bounds_of (a_points (abs_cells A ! i))) b)
           [0..<length (abs_cells A)])"
    "pv_extract_cells (lattice_kernel ver) =
       (\<lambda>A ind. concat (map a_points (extract_cells ind (abs_cells A))))"
    "pv_clean (lattice_kernel ver) = (\<lambda>A. remdups (abs_points A))"
    "np_arange (lattice_kernel ver) = lattice_arange"
    "pv_StructuredGrid (lattice_kernel ver) = lattice_grid"
    by (simp_all add: lattice_kernel_def)
  have clip: "pv_clip_surface (lattice_kernel ver) cube_mesh (shrink_bounds (0, 1, 0, 1, 0, 1))
      = cube_mesh"
    by (simp add: lattice_kernel_def shrink_bounds_def eps_def cube_mesh_def cube_points_def
        outside_def)
  have cs: "cells cube_mesh = [\<lparr>cell_points = cube_points, MaterialTag = 1, ElementTag = 1,
      Region = 1, Core = 0, AbsorbingRegion = 0\<rparr>]"
    by (simp add: cube_mesh_def)
  have cen: "centroid cube_points = (1 / 2, 1 / 2, 1 / 2)"
    by (simp add: centroid_def cube_points_def)
  have reg: "regionize [(1 / 2, 1 / 2, 1 / 2)] = [17]"
    by (simp add: regionize_def masked_assign_def mask_and_def bounds_of_def eps_def)
  have ex: "extrude_cell (lattice_kernel ver) 1 \<lparr>cell_points = cube_points, MaterialTag = 1,
      ElementTag = 1, Region = 1, Core = 0, AbsorbingRegion = 0\<rparr> 17 =
      Inr (lattice_grid [0, 1, 2] [0, 1, 2] [- 1, 0, 1], 1)"
    by (simp add: extrude_cell_def bounds_of_def py_index_def normals_def Let_def k
        cube_points_def lattice_arange_4 lattice_arange_5)
  show ?thesis
    by (simp add: build_shell_def Let_def clip cs cen reg ex k(1-5) lattice_grid_def
        consecutive_def broadcast_tags_def shell_cell_def extract_cells_def bounds_of_def
        boxes_meet_def upt_conv_Cons cube_shell_points_def)
qed

lemma cube_lattice_make_absorbing:
  "\<exists>cs s1. make_absorbing (lattice_kernel NumPy_2) cube_model cube_mesh 1 1 rd False ''PML'' =
       (Inr \<lparr>abs_points = cube_shell_points,
             abs_ndf = replicate (length cube_shell_points) 9, abs_cells = cs\<rparr>, s1)"
proof -
  from cube_lattice_build_shell [of NumPy_2] obtain cs where
    bs: "build_shell (lattice_kernel NumPy_2) cube_mesh (shrink_bounds (0, 1, 0, 1, 0, 1)) 1 9 =
     Inr (\<lparr>abs_points = cube_shell_points,
           abs_ndf = replicate (length cube_shell_points) 9, abs_cells = cs\<rparr>,
          Some 1, [(1 / 2, 1 / 2, 1 / 2)])"
    and ne0: "cs \<noteq> []" and tags: "list_all (\<lambda>c. a_ElementTag c = 1) cs"
    by blast
  define A0 where "A0 = \<lparr>abs_points = cube_shell_points,
           abs_ndf = replicate (length cube_shell_points) 9, abs_cells = cs\<rparr>"
  from ne0 have ne: "abs_cells A0 \<noteq> []" by (simp add: A0_def)
  from tags have all: "\<forall>c \<in> set (abs_cells A0). a_ElementTag c = 1"
    by (simp add: A0_def list_all_iff)
  have src1: "elements (element cube_model) (uint (1 :: 16 word)) = Some brick"
    by (simp add: cube_model_def)
  have ty: "element_type brick \<in> {''stdBrick'', ''bbarBrick'', ''SSPbrick''}"
    and mat: "material_name (element_material brick) = ''ElasticIsotropic''"
      "material_type (element_material brick) = ''nDMaterial''"
    by (simp_all add: brick_def elastic_def)
  have nv: "np_version (lattice_kernel NumPy_2) = NumPy_2"
    by (simp add: lattice_kernel_def)
  note rt = retag_single [OF ne all src1 ty mat, of "lattice_kernel NumPy_2" "(0, 1, 0, 1, 0, 1)" 1 1 9]
  have w: "store_uint16 NumPy_2 (next_tag (element cube_model)) = Inr 2"
    "store_uint16 NumPy_2 (region_next_tag (region cube_model)) = Inr 1"
    by (simp_all add: store_uint16_def cube_model_def)
  have core: "amax (map Core (cells cube_mesh)) = 0"
    by (simp add: cube_mesh_def)
  show ?thesis
    using w
    by (simp add: make_absorbing_def Let_def cube_bounds bs rt [unfolded A0_def]
        nv core partition_shell_def add_damping_region_def create_damping_def
        create_region_def)
qed
subsection \<open>The interface points of the specification\<close>

lemma amin_Min: "xs \<noteq> [] \<Longrightarrow> amin xs = Min (set xs)"
proof (cases xs)
  case Nil
  then show "xs \<noteq> [] \<Longrightarrow> amin xs = Min (set xs)" by simp
next
  case (Cons a list)
  then show ?thesis
    using Min.set_eq_fold [of a list] by simp
qed

lemma interface_points_spec: "interface_points mesh = spec_boundary_points mesh"
proof (cases "points mesh = []")
  case True
  then show ?thesis
    by (simp add: interface_points_def spec_boundary_points_def split: prod.splits)
next
  case False
  then have b: "bounds_of (points mesh) =
      (Min (fst ` set (points mesh)), Max (fst ` set (points mesh)),
       Min ((fst \<circ> snd) ` set (points mesh)), Max ((fst \<circ> snd) ` set (points mesh)),
       Min ((snd \<circ> snd) ` set (points mesh)), Max ((snd \<circ> snd) ` set (points mesh)))"
    by (simp add: bounds_of_def amin_Min amax_Max)
  show ?thesis
    by (simp add: interface_points_def spec_boundary_points_def b spec_shrunk_box_def
        strictly_inside_def Let_def split_def)
qed

lemma amax_gt_iff: "xs \<noteq> [] \<Longrightarrow> c < amax xs \<longleftrightarrow> (\<exists>x \<in> set xs. c < x)"
  by (simp add: amax_Max Max_gr_iff)

lemma query_distances_alt:
  "query_distances K merged mesh =
     concat (map (\<lambda>p. [\<bar>fst (fst (kd_query K (points merged) p))\<bar>,
                        \<bar>snd (fst (kd_query K (points merged) p))\<bar>]) (interface_points mesh))"
  by (simp add: query_distances_def split_def)

lemma set_query_distances:
  "set (query_distances K merged mesh) =
     (\<Union>p \<in> set (interface_points mesh).
        {\<bar>fst (fst (kd_query K (points merged) p))\<bar>, \<bar>snd (fst (kd_query K (points merged) p))\<bar>})"
  by (auto simp add: query_distances_alt)

lemma stitch_not_matching:
  "fst (stitch K merged mesh cs) = Inl (ValueError PointsNotMatching) \<longleftrightarrow>
     (\<exists>p \<in> set (spec_boundary_points mesh).
        1 / 10 ^ 6 < \<bar>fst (fst (kd_query K (points merged) p))\<bar> \<or>
        1 / 10 ^ 6 < \<bar>snd (fst (kd_query K (points merged) p))\<bar>)"
proof (cases "query_distances K merged mesh = []")
  case True
  then have "interface_points mesh = []" by (simp add: query_distances_Nil)
  with True show ?thesis
    by (simp add: stitch_def Let_def interface_points_spec [symmetric])
next
  case False
  have "fst (stitch K merged mesh cs) = Inl (ValueError PointsNotMatching) \<longleftrightarrow>
      1 / 10 ^ 6 < amax (query_distances K merged mesh)"
    using False equal_dof_loop_not_matching [of "ndf merged" "query_indices K merged mesh" cs]
    by (auto simp add: stitch_def Let_def)
  also have "\<dots> \<longleftrightarrow> (\<exists>x \<in> set (query_distances K merged mesh). 1 / 10 ^ 6 < x)"
    by (rule amax_gt_iff [OF False])
  also have "\<dots> \<longleftrightarrow> (\<exists>p \<in> set (spec_boundary_points mesh).
        1 / 10 ^ 6 < \<bar>fst (fst (kd_query K (points merged) p))\<bar> \<or>
        1 / 10 ^ 6 < \<bar>snd (fst (kd_query K (points merged) p))\<bar>)"
    by (auto simp add: set_query_distances interface_points_spec)
  finally show ?thesis .
qed

lemma PML_call_after_shell:
  assumes am: "AssembeledMesh s = Some interior"
    and v: "1 \<le> numLayers" "0 \<le> numPartitions" "cells interior \<noteq> []"
      "\<not> (numPartitions = 0 \<and> 0 < Max (set (map Core (cells interior))))"
    and ma: "make_absorbing K s interior numLayers numPartitions rd md ''PML'' = (Inr A, s1)"
  shows "fst (addAbsorbingLayer K s numLayers numPartitions ''kd-tree'' ''Rectangular'' rd md
            (Some ''PML'')) =
     (case fst (stitch K ((pv_merge K (zero_AbsorbingRegion interior) A False)
                   \<lparr>active_scalars := Some ''AbsorbingRegion''\<rparr>)
                 (zero_AbsorbingRegion interior) (mp s)) of
        Inl e \<Rightarrow> Inl e | Inr u \<Rightarrow> Inr PyNone)"
proof -
  from v have c: "\<not> (numPartitions = 0 \<and> 0 < amax (map Core (cells interior)))"
    by (simp add: amax_Max)
  from make_absorbing_keeps [OF ma] have mp1: "mp s1 = mp s" by simp
  show ?thesis
    using am v(1-3) c
    by (auto simp add: addAbsorbingLayer_def addRectangularAbsorbingLayer_def ma
        merge_and_stitch_def Let_def mp1 split: prod.splits sum.splits)
qed

lemma amax_ge: "x \<in> set xs \<Longrightarrow> x \<le> amax xs"
  by (cases "xs = []") (simp_all add: amax_Max)
subsection \<open>The constraints of the interface\<close>

text \<open>
  Claim C2. The points eligible for stitching are written as the specification
  describes them (\<open>spec_boundary_points\<close>: the points of the interior mesh that are not
  strictly inside its bounding box shrunk by \<open>eps\<close> in x, in y and at the lower end of
  z and enlarged by 10 at the upper end of z).
  \<^item> The stitching raises the geometric-consistency error exactly when one of the two
    nearest-neighbour distances of one of these points exceeds \<open>1e-6\<close>, that is, when
    the largest of them does.
  \<^item> So does the PML call itself once it has built the shell.
  \<^item> A PML call that raises no error leaves the constraints it found, followed by
    exactly one new constraint per eligible point, in the order of the points; both
    distances of the \<open>j\<close>-th point are at most \<open>1e-6\<close>, and its constraint links the
    two points its query returned, one with \<^verbatim>\<open>ndf == 3\<close> and one with
    \<^verbatim>\<open>ndf == 9\<close>.
\<close>

theorem stitching_constraints:
  "(fst (stitch K merged mesh cs) = Inl (ValueError PointsNotMatching) \<longleftrightarrow>
      (\<exists>p \<in> set (spec_boundary_points mesh).
         1 / 10 ^ 6 < \<bar>fst (fst (kd_query K (points merged) p))\<bar> \<or>
         1 / 10 ^ 6 < \<bar>snd (fst (kd_query K (points merged) p))\<bar>)) \<and>
   (AssembeledMesh s = Some interior \<and> 1 \<le> numLayers \<and> 0 \<le> numPartitions \<and>
      cells interior \<noteq> [] \<and>
      \<not> (numPartitions = 0 \<and> 0 < Max (set (map Core (cells interior)))) \<and>
      make_absorbing K s interior numLayers numPartitions rd md ''PML'' = (Inr A, s1) \<longrightarrow>
      (fst (addAbsorbingLayer K s numLayers numPartitions ''kd-tree'' ''Rectangular'' rd md
              (Some ''PML'')) = Inl (ValueError PointsNotMatching) \<longleftrightarrow>
         (\<exists>p \<in> set (spec_boundary_points interior).
            1 / 10 ^ 6 < \<bar>fst (fst (kd_query K
               (points (pv_merge K (zero_AbsorbingRegion interior) A False)) p))\<bar> \<or>
            1 / 10 ^ 6 < \<bar>snd (fst (kd_query K
               (points (pv_merge K (zero_AbsorbingRegion interior) A False)) p))\<bar>))) \<and>
   (addAbsorbingLayer K s numLayers numPartitions partitionAlgo geometry rd md (Some ''PML'')
      = (Inr v, s') \<longrightarrow>
      (\<exists>interior merged new.
         AssembeledMesh s = Some interior \<and> AssembeledMesh s' = Some merged \<and>
         mp s' = mp s @ new \<and> length new = length (spec_boundary_points interior) \<and>
         (\<forall>j < length new.
            \<bar>fst (fst (kd_query K (points merged) (spec_boundary_points interior ! j)))\<bar>
              \<le> 1 / 10 ^ 6 \<and>
            \<bar>snd (fst (kd_query K (points merged) (spec_boundary_points interior ! j)))\<bar>
              \<le> 1 / 10 ^ 6 \<and>
            (\<exists>p q. {p, q} =
                     {fst (snd (kd_query K (points merged) (spec_boundary_points interior ! j))),
                      snd (snd (kd_query K (points merged) (spec_boundary_points interior ! j)))} \<and>
                  ndf merged ! p = 3 \<and> ndf merged ! q = 9 \<and>
                  new ! j = \<lparr>master_node = int p + 1, slave_nodes = [int q + 1],
                             dofs = [1, 2, 3]\<rparr>))))"
proof (intro conjI impI)
  show "fst (stitch K merged mesh cs) = Inl (ValueError PointsNotMatching) \<longleftrightarrow>
      (\<exists>p \<in> set (spec_boundary_points mesh).
         1 / 10 ^ 6 < \<bar>fst (fst (kd_query K (points merged) p))\<bar> \<or>
         1 / 10 ^ 6 < \<bar>snd (fst (kd_query K (points merged) p))\<bar>)"
    by (rule stitch_not_matching)
next
  assume a: "AssembeledMesh s = Some interior \<and> 1 \<le> numLayers \<and> 0 \<le> numPartitions \<and>
      cells interior \<noteq> [] \<and>
      \<not> (numPartitions = 0 \<and> 0 < Max (set (map Core (cells interior)))) \<and>
      make_absorbing K s interior numLayers numPartitions rd md ''PML'' = (Inr A, s1)"
  define merged where "merged = (pv_merge K (zero_AbsorbingRegion interior) A False)
      \<lparr>active_scalars := Some ''AbsorbingRegion''\<rparr>"
  have pm: "points merged = points (pv_merge K (zero_AbsorbingRegion interior) A False)"
    by (simp add: merged_def)
  have sp: "spec_boundary_points (zero_AbsorbingRegion interior) = spec_boundary_points interior"
    by (simp add: interface_points_spec [symmetric])
  from a have "fst (addAbsorbingLayer K s numLayers numPartitions ''kd-tree'' ''Rectangular''
      rd md (Some ''PML'')) =
     (case fst (stitch K merged (zero_AbsorbingRegion interior) (mp s)) of
        Inl e \<Rightarrow> Inl e | Inr u \<Rightarrow> Inr PyNone)"
    unfolding merged_def by (intro PML_call_after_shell) simp_all
  then have "fst (addAbsorbingLayer K s numLayers numPartitions ''kd-tree'' ''Rectangular''
      rd md (Some ''PML'')) = Inl (ValueError PointsNotMatching) \<longleftrightarrow>
      fst (stitch K merged (zero_AbsorbingRegion interior) (mp s))
        = Inl (ValueError PointsNotMatching)"
    by (simp split: sum.splits)
  also have "\<dots> \<longleftrightarrow> (\<exists>p \<in> set (spec_boundary_points interior).
         1 / 10 ^ 6 < \<bar>fst (fst (kd_query K (points merged) p))\<bar> \<or>
         1 / 10 ^ 6 < \<bar>snd (fst (kd_query K (points merged) p))\<bar>)"
    by (simp only: stitch_not_matching sp)
  finally show "fst (addAbsorbingLayer K s numLayers numPartitions ''kd-tree'' ''Rectangular''
      rd md (Some ''PML'')) = Inl (ValueError PointsNotMatching) \<longleftrightarrow>
         (\<exists>p \<in> set (spec_boundary_points interior).
            1 / 10 ^ 6 < \<bar>fst (fst (kd_query K
               (points (pv_merge K (zero_AbsorbingRegion interior) A False)) p))\<bar> \<or>
            1 / 10 ^ 6 < \<bar>snd (fst (kd_query K
               (points (pv_merge K (zero_AbsorbingRegion interior) A False)) p))\<bar>)"
    by (simp only: pm)
next
  assume run: "addAbsorbingLayer K s numLayers numPartitions partitionAlgo geometry rd md
      (Some ''PML'') = (Inr v, s')"
  from PML_run_Inr [OF run] obtain interior merged ns where
    am: "AssembeledMesh s = Some interior" and m': "AssembeledMesh s' = Some merged"
    and sel: "map (select_nodes (ndf merged)) (query_indices K merged interior) = map Inr ns"
    and mp': "mp s' = mp s @ map constraint_of ns"
    and le: "amax (query_distances K merged interior) \<le> 1 / 10 ^ 6"
    by auto
  let ?ip = "spec_boundary_points interior"
  from sel have "length ns = length (interface_points interior)"
    by (metis length_map length_query_indices)
  then have len: "length ns = length ?ip"
    by (simp add: interface_points_spec)
  have "\<bar>fst (fst (kd_query K (points merged) (?ip ! j)))\<bar> \<le> 1 / 10 ^ 6 \<and>
        \<bar>snd (fst (kd_query K (points merged) (?ip ! j)))\<bar> \<le> 1 / 10 ^ 6 \<and>
        (\<exists>p q. {p, q} = {fst (snd (kd_query K (points merged) (?ip ! j))),
                       snd (snd (kd_query K (points merged) (?ip ! j)))} \<and>
          ndf merged ! p = 3 \<and> ndf merged ! q = 9 \<and>
          map constraint_of ns ! j = \<lparr>master_node = int p + 1, slave_nodes = [int q + 1],
                             dofs = [1, 2, 3]\<rparr>)"
    if j: "j < length (map constraint_of ns)" for j
  proof -
    define ix where "ix = snd (kd_query K (points merged) (?ip ! j))"
    from j len have jl: "j < length ?ip" by simp
    then have jl': "j < length (interface_points interior)"
      by (simp add: interface_points_spec)
    from jl have mem: "?ip ! j \<in> set (interface_points interior)"
      by (simp add: interface_points_spec)
    have d0: "\<bar>fst (fst (kd_query K (points merged) (?ip ! j)))\<bar>
        \<in> set (query_distances K merged interior)"
      and d1: "\<bar>snd (fst (kd_query K (points merged) (?ip ! j)))\<bar>
        \<in> set (query_distances K merged interior)"
      using mem unfolding set_query_distances by blast+
    from amax_ge [OF d0] amax_ge [OF d1] le have dist:
      "\<bar>fst (fst (kd_query K (points merged) (?ip ! j)))\<bar> \<le> 1 / 10 ^ 6"
      "\<bar>snd (fst (kd_query K (points merged) (?ip ! j)))\<bar> \<le> 1 / 10 ^ 6"
      by linarith+
    have "select_nodes (ndf merged) ix
        = map (select_nodes (ndf merged)) (query_indices K merged interior) ! j"
      using jl' by (simp add: query_indices_nth ix_def interface_points_spec)
    also have "\<dots> = map Inr ns ! j"
      by (simp only: sel)
    also have "\<dots> = Inr (ns ! j)"
      using j by simp
    finally have "select_nodes (ndf merged) (fst ix, snd ix) = Inr (fst (ns ! j), snd (ns ! j))"
      by simp
    from select_nodes_Inr [OF this] have
      "\<exists>p q. {p, q} = {fst ix, snd ix} \<and> ndf merged ! p = 3 \<and> ndf merged ! q = 9 \<and>
          map constraint_of ns ! j = \<lparr>master_node = int p + 1, slave_nodes = [int q + 1],
                             dofs = [1, 2, 3]\<rparr>"
      using j
      by (auto simp add: constraint_of_def intro: exI [of _ "fst ix"] exI [of _ "snd ix"])
    with dist show ?thesis
      unfolding ix_def by simp
  qed
  with am m' mp' len show "\<exists>interior merged new.
         AssembeledMesh s = Some interior \<and> AssembeledMesh s' = Some merged \<and>
         mp s' = mp s @ new \<and> length new = length (spec_boundary_points interior) \<and>
         (\<forall>j < length new.
            \<bar>fst (fst (kd_query K (points merged) (spec_boundary_points interior ! j)))\<bar>
              \<le> 1 / 10 ^ 6 \<and>
            \<bar>snd (fst (kd_query K (points merged) (spec_boundary_points interior ! j)))\<bar>
              \<le> 1 / 10 ^ 6 \<and>
            (\<exists>p q. {p, q} =
                     {fst (snd (kd_query K (points merged) (spec_boundary_points interior ! j))),
                      snd (snd (kd_query K (points merged) (spec_boundary_points interior ! j)))} \<and>
                  ndf merged ! p = 3 \<and> ndf merged ! q = 9 \<and>
                  new ! j = \<lparr>master_node = int p + 1, slave_nodes = [int q + 1],
                             dofs = [1, 2, 3]\<rparr>))"
    by (intro exI [of _ interior] exI [of _ merged] exI [of _ "map constraint_of ns"]) simp
qed

lemma lattice_spec_boundary_points:
  "spec_boundary_points lattice_mesh =
     [(0, 0, 0), (2, 0, 0), (4, 0, 0), (0, 1, 0), (2, 1, 0), (4, 1, 0),
      (0, 2, 0), (2, 2, 0), (4, 2, 0), (0, 0, 1), (2, 0, 1), (4, 0, 1),
      (0, 1, 1), (4, 1, 1), (0, 2, 1), (2, 2, 1), (4, 2, 1)]"
  by (simp only: interface_points_spec [symmetric] lattice_interface_points)

lemma lattice_model_facts:
  "AssembeledMesh lattice_model = Some lattice_mesh"
  "elements (element lattice_model) 1 = Some brick"
  "element_type brick \<in> {''stdBrick'', ''bbarBrick'', ''SSPbrick''}"
  "material_name (element_material brick) = ''ElasticIsotropic''"
  "material_type (element_material brick) = ''nDMaterial''"
  "store_uint16 NumPy_2 (next_tag (element lattice_model)) = Inr 2"
  "store_uint16 NumPy_2 (region_next_tag (region lattice_model)) = Inr 1"
  "mp lattice_model = []"
  by (simp_all add: lattice_model_def cube_model_def brick_def elastic_def store_uint16_def)

theorem stitching_constraints_witness:
  "fst (stitch (lattice_kernel NumPy_2) point_mesh point_mesh [])
     = Inl (ValueError PointsNotMatching) \<and>
   fst (addAbsorbingLayer (lattice_kernel NumPy_2) cube_model 1 1 ''kd-tree'' ''Rectangular''
          (19 / 20) False (Some ''PML'')) = Inl (ValueError PointsNotMatching) \<and>
   (\<exists>v s' new.
      addAbsorbingLayer (lattice_kernel NumPy_2) lattice_model 1 1 ''kd-tree'' ''Rectangular''
        (19 / 20) False (Some ''PML'') = (Inr v, s') \<and>
      mp s' = new \<and> length new = 17 \<and>
      map master_node new = [1, 2, 3, 4, 5, 6, 7, 8, 9, 10, 11, 12, 13, 15, 16, 17, 18]) \<and>
   length (points lattice_mesh) = 18 \<and>
   points lattice_mesh ! 13 = (2, 1, 1) \<and>
   spec_boundary_points lattice_mesh =
     [(0, 0, 0), (2, 0, 0), (4, 0, 0), (0, 1, 0), (2, 1, 0), (4, 1, 0),
      (0, 2, 0), (2, 2, 0), (4, 2, 0), (0, 0, 1), (2, 0, 1), (4, 0, 1),
      (0, 1, 1), (4, 1, 1), (0, 2, 1), (2, 2, 1), (4, 2, 1)]"
proof -
  have kq: "kd_query (lattice_kernel NumPy_2) = exact_query"
    by (simp add: lattice_kernel_def)
  have "spec_boundary_points point_mesh = [(0, 0, 0)]"
    by (simp add: interface_points_spec [symmetric] interface_points_def point_mesh_def
        bounds_of_def eps_def)
  then have first: "fst (stitch (lattice_kernel NumPy_2) point_mesh point_mesh [])
      = Inl (ValueError PointsNotMatching)"
    using stitching_constraints [where K = "lattice_kernel NumPy_2" and merged = point_mesh
        and mesh = point_mesh and cs = "[]", THEN conjunct1]
    by (simp add: kq point_mesh_def exact_query_def)
  from cube_lattice_make_absorbing [of "19 / 20"] obtain cs s1 where
    ma: "make_absorbing (lattice_kernel NumPy_2) cube_model cube_mesh 1 1 (19 / 20) False ''PML'' =
       (Inr \<lparr>abs_points = cube_shell_points,
             abs_ndf = replicate (length cube_shell_points) 9, abs_cells = cs\<rparr>, s1)"
    by blast
  have hyp: "AssembeledMesh cube_model = Some cube_mesh \<and> (1::int) \<le> 1 \<and> (0::int) \<le> 1 \<and>
      cells cube_mesh \<noteq> [] \<and>
      \<not> ((1::int) = 0 \<and> 0 < Max (set (map Core (cells cube_mesh)))) \<and>
      make_absorbing (lattice_kernel NumPy_2) cube_model cube_mesh 1 1 (19 / 20) False ''PML'' =
       (Inr \<lparr>abs_points = cube_shell_points,
             abs_ndf = replicate (length cube_shell_points) 9, abs_cells = cs\<rparr>, s1)"
    using ma by (simp add: cube_model_def cube_mesh_def)
  have sp: "spec_boundary_points cube_mesh = cube_points"
    by (simp only: interface_points_spec [symmetric] cube_interface_points)
  have far: "\<exists>p \<in> set (spec_boundary_points cube_mesh).
      1 / 10 ^ 6 < \<bar>fst (fst (kd_query (lattice_kernel NumPy_2)
         (points (pv_merge (lattice_kernel NumPy_2) (zero_AbsorbingRegion cube_mesh)
            \<lparr>abs_points = cube_shell_points,
              abs_ndf = replicate (length cube_shell_points) 9, abs_cells = cs\<rparr> False)) p))\<bar> \<or>
      1 / 10 ^ 6 < \<bar>snd (fst (kd_query (lattice_kernel NumPy_2)
         (points (pv_merge (lattice_kernel NumPy_2) (zero_AbsorbingRegion cube_mesh)
            \<lparr>abs_points = cube_shell_points,
              abs_ndf = replicate (length cube_shell_points) 9, abs_cells = cs\<rparr> False)) p))\<bar>"
  proof (rule bexI [of _ "(0, 0, 1)"])
    show "(0, 0, 1) \<in> set (spec_boundary_points cube_mesh)"
      by (simp add: sp cube_points_def)
    show "1 / 10 ^ 6 < \<bar>fst (fst (kd_query (lattice_kernel NumPy_2)
         (points (pv_merge (lattice_kernel NumPy_2) (zero_AbsorbingRegion cube_mesh)
            \<lparr>abs_points = cube_shell_points,
              abs_ndf = replicate (length cube_shell_points) 9, abs_cells = cs\<rparr> False))
          (0, 0, 1)))\<bar> \<or>
      1 / 10 ^ 6 < \<bar>snd (fst (kd_query (lattice_kernel NumPy_2)
         (points (pv_merge (lattice_kernel NumPy_2) (zero_AbsorbingRegion cube_mesh)
            \<lparr>abs_points = cube_shell_points,
              abs_ndf = replicate (length cube_shell_points) 9, abs_cells = cs\<rparr> False))
          (0, 0, 1)))\<bar>"
      by (simp add: lattice_kernel_def zero_AbsorbingRegion_def cube_mesh_def cube_points_def
          cube_shell_points_def exact_query_def)
  qed
  note T2 = stitching_constraints [where K = "lattice_kernel NumPy_2" and s = cube_model
      and interior = cube_mesh and numLayers = 1 and numPartitions = 1 and rd = "19 / 20"
      and md = False and ?s1.0 = s1
      and A = "\<lparr>abs_points = cube_shell_points,
             abs_ndf = replicate (length cube_shell_points) 9, abs_cells = cs\<rparr>",
      THEN conjunct2, THEN conjunct1, rule_format, OF hyp]
  from T2 far have second:
    "fst (addAbsorbingLayer (lattice_kernel NumPy_2) cube_model 1 1 ''kd-tree'' ''Rectangular''
          (19 / 20) False (Some ''PML'')) = Inl (ValueError PointsNotMatching)"
    by (simp only:)
  from lattice_PML_run [OF lattice_model_facts(1-7), of "19 / 20"] obtain s' where
    run: "addAbsorbingLayer (lattice_kernel NumPy_2) lattice_model 1 1 ''kd-tree''
        ''Rectangular'' (19 / 20) False (Some ''PML'') = (Inr PyNone, s')"
    and mp': "mp s' = mp lattice_model @ map constraint_of lattice_pairs"
    by blast
  note T3 = stitching_constraints [where K = "lattice_kernel NumPy_2" and s = lattice_model
      and s' = s' and v = PyNone and numLayers = 1 and numPartitions = 1
      and partitionAlgo = "''kd-tree''" and geometry = "''Rectangular''" and rd = "19 / 20"
      and md = False, THEN conjunct2, THEN conjunct2, rule_format, OF run]
  then obtain new where
    "mp s' = mp lattice_model @ new" "length new = length (spec_boundary_points lattice_mesh)"
    using lattice_model_facts(1) by fastforce
  with mp' have new: "mp s' = new" "length new = 17"
    "map master_node new = [1, 2, 3, 4, 5, 6, 7, 8, 9, 10, 11, 12, 13, 15, 16, 17, 18]"
    by (simp_all add: lattice_model_facts(8) lattice_spec_boundary_points lattice_pairs_def
        constraint_of_def)
  with run have third: "\<exists>v s' new.
      addAbsorbingLayer (lattice_kernel NumPy_2) lattice_model 1 1 ''kd-tree'' ''Rectangular''
        (19 / 20) False (Some ''PML'') = (Inr v, s') \<and>
      mp s' = new \<and> length new = 17 \<and>
      map master_node new = [1, 2, 3, 4, 5, 6, 7, 8, 9, 10, 11, 12, 13, 15, 16, 17, 18]"
    by (intro exI [of _ PyNone] exI [of _ s'] exI [of _ new]) simp
  have fourth: "length (points lattice_mesh) = 18" "points lattice_mesh ! 13 = (2, 1, 1)"
    by (simp_all add: lattice_points)
  from first second third fourth lattice_spec_boundary_points show ?thesis
    by (intro conjI)
qed

end
